theory Spec2Isabelle
  imports Complex_Main "HOL-Library.Multiset"
begin

section \<open>Embedding of simulationModel.py\<close>

text \<open>
  The module has two functions, \<^verbatim>\<open>get_current_season\<close> and \<^verbatim>\<open>predict_match\<close>.
  Python floats are modelled as exact reals (no rounding error, no underflow, no nan, no
  infinity); Python ints as \<open>int\<close>, loop counters as \<open>nat\<close>.  The clock, the collaborators imported
  from \<^verbatim>\<open>fetchData\<close> and \<^verbatim>\<open>prosessData\<close>, and the library function
  \<^verbatim>\<open>scipy.stats.poisson.pmf\<close> are parameters of the model.  The \<^verbatim>\<open>print\<close> calls
  write to the console only and are left out.
\<close>

subsection \<open>Python values and errors\<close>

datatype py_error = KeyError string | ZeroDivisionError

text \<open>Sequencing of fallible steps: the first error ends the computation.\<close>

definition bind_err :: "py_error + 'a \<Rightarrow> ('a \<Rightarrow> py_error + 'b) \<Rightarrow> py_error + 'b" where
  "bind_err m f = (case m of Inl e \<Rightarrow> Inl e | Inr x \<Rightarrow> f x)"

text \<open>\<^verbatim>\<open>x / y\<close>, with its ZeroDivisionError.\<close>

definition py_div :: "real \<Rightarrow> real \<Rightarrow> py_error + real" where
  "py_div x y = (if y = 0 then Inl ZeroDivisionError else Inr (x / y))"

text \<open>\<^verbatim>\<open>str(n)\<close> for an int, as an f-string formats it.\<close>

definition digit_char :: "nat \<Rightarrow> char" where
  "digit_char d = ''0123456789'' ! d"

function str_nat :: "nat \<Rightarrow> string" where
  "str_nat n = (if n < 10 then [digit_char n] else str_nat (n div 10) @ [digit_char (n mod 10)])"
  by pat_completeness auto
termination
  by (relation "measure (\<lambda>n. n)") auto

definition str_int :: "int \<Rightarrow> string" where
  "str_int i = (if i < 0 then CHR ''-'' # str_nat (nat (- i)) else str_nat (nat i))"

text \<open>
  \<^verbatim>\<open>round(x, 2)\<close>: the nearest multiple of 0.01, a tie going to the even one
  (on exact reals the builtin and numpy's rounding agree).
\<close>

definition round_half_even :: "real \<Rightarrow> int" where
  "round_half_even x =
     (let f = \<lfloor>x\<rfloor>; d = x - of_int f
      in if d < 1 / 2 then f else if 1 / 2 < d then f + 1 else if even f then f else f + 1)"

definition py_round2 :: "real \<Rightarrow> real" where
  "py_round2 x = of_int (round_half_even (x * 100)) / 100"

text \<open>
  A dict with string keys, in insertion order.  \<^verbatim>\<open>d[k] = v\<close> replaces the value of a
  key that is present, where it stands, and appends a new key; \<^verbatim>\<open>d[k]\<close> raises KeyError
  on a key that is absent.
\<close>

type_synonym 'v py_dict = "(string \<times> 'v) list"

fun dict_set :: "'v py_dict \<Rightarrow> string \<Rightarrow> 'v \<Rightarrow> 'v py_dict" where
  "dict_set [] k v = [(k, v)]"
| "dict_set ((k', v') # d) k v = (if k' = k then (k, v) # d else (k', v') # dict_set d k v)"

definition key_in :: "string \<Rightarrow> 'v py_dict \<Rightarrow> bool" where
  "key_in k d = (map_of d k \<noteq> None)"

definition dict_get :: "'v py_dict \<Rightarrow> string \<Rightarrow> py_error + 'v" where
  "dict_get d k = (case map_of d k of None \<Rightarrow> Inl (KeyError k) | Some v \<Rightarrow> Inr v)"

text \<open>
  \<^verbatim>\<open>sorted(items, key=lambda item: item[1], reverse=True)\<close>: descending by value and
  stable, so items with equal values keep the order they had.  Each item is put in front
  of the first later item that is not greater.
\<close>

fun insert_desc :: "'k \<times> real \<Rightarrow> ('k \<times> real) list \<Rightarrow> ('k \<times> real) list" where
  "insert_desc x [] = [x]"
| "insert_desc x (y # ys) = (if snd y \<le> snd x then x # y # ys else y # insert_desc x ys)"

definition sorted_desc :: "('k \<times> real) list \<Rightarrow> ('k \<times> real) list" where
  "sorted_desc xs = foldr insert_desc xs []"

subsection \<open>The season resolver (lines 8-26)\<close>

record datetime =
  year :: int
  month :: int
  day :: int

text \<open>\<^verbatim>\<open>datetime.now()\<close> is the argument \<open>now\<close>.\<close>

definition get_current_season :: "datetime \<Rightarrow> int" where
  "get_current_season now =
     (let current_year = year now; current_month = month now
      in if current_month < 8 then current_year - 1 else current_year)"

subsection \<open>Data of a prediction\<close>

text \<open>
  The league averages are the dict \<^verbatim>\<open>calculate_league_averages\<close> returns, read at its
  two keys; a team's stats are a dict from coefficient names to numbers.
\<close>

record league_avgs =
  avg_home_goals :: real
  avg_away_goals :: real

type_synonym stats_dict = "real py_dict"

text \<open>
  What the call of \<^verbatim>\<open>calculate_final_team_stats\<close> inside \<^verbatim>\<open>try\<close> can do: raise,
  return something that is not a dict (None included), or return a dict.
\<close>

datatype provider_return = Raised | Returned_other | Returned_dict stats_dict

definition required_keys :: "string list" where
  "required_keys =
     [''attack_strength_home'', ''defense_strength_home'',
      ''attack_strength_away'', ''defense_strength_away'']"

definition zero_stats :: stats_dict where
  "zero_stats =
     [(''attack_strength_home'', 0), (''defense_strength_home'', 0),
      (''attack_strength_away'', 0), (''defense_strength_away'', 0)]"

text \<open>Lines 70-91 and 93-114: the try block around the provider, for one team.\<close>

definition checked_stats :: "provider_return \<Rightarrow> stats_dict" where
  "checked_stats r =
     (case r of
        Raised \<Rightarrow> zero_stats
      | Returned_other \<Rightarrow> zero_stats
      | Returned_dict d \<Rightarrow>
          if d = [] \<or> \<not> list_all (\<lambda>key. key_in key d) required_keys then zero_stats else d)"

record prediction =
  home_team_win_probability :: real
  away_team_win_probability :: real
  draw_probability :: real
  predicted_goals_home :: real
  predicted_goals_away :: real
  top_five_scores :: "(string \<times> real) list"
  league_averages :: league_avgs
  home_team_stats :: stats_dict
  away_team_stats :: stats_dict
  home_expected_goals :: real
  away_expected_goals :: real

text \<open>The dict \<^verbatim>\<open>predict_match\<close> returns: \<^verbatim>\<open>{"error": ...}\<close> or the prediction.\<close>

datatype result = Error_dict string | Prediction prediction

subsection \<open>The Poisson probabilities\<close>

text \<open>
  \<^verbatim>\<open>poisson.pmf(k, mu)\<close> is library code.  The functions below take it as the argument
  \<open>pmf\<close>, and what holds of the program whatever numbers the library returns is stated
  for an arbitrary \<open>pmf\<close>.

  \<open>poisson_pmf\<close> is the probability the library computes, for a count \<open>k\<close> and a rate
  \<open>mu \<ge> 0\<close>, with all mass on 0 when the rate is 0.  The library works in double
  precision: its value is \<open>poisson_pmf k mu\<close> up to rounding where that is within the range
  of a double, it is 0.0 where \<open>poisson_pmf k mu\<close> is below that range (for all eight
  counts from a rate of about 780; the total of line 140 is then 0.0 and the guard of line
  142 skips the division), and it is nan for \<open>mu < 0\<close>.  So \<open>poisson_pmf\<close> stands for
  the library only at rates that are not negative and not large: below it is used at the
  rate 0, at the rates of the scenario, and for two rates whose sum is at most 700, where
  \<open>exp (- 700)\<close>, the least probability the cell 0-0 can then have, is still a normal
  double.
\<close>

definition poisson_pmf :: "nat \<Rightarrow> real \<Rightarrow> real" where
  "poisson_pmf k mu = exp (- mu) * mu ^ k / fact k"

subsection \<open>The simulation (lines 118-167)\<close>

text \<open>Lines 118-120.\<close>

definition expected_goals :: "stats_dict \<Rightarrow> stats_dict \<Rightarrow> league_avgs \<Rightarrow> py_error + real \<times> real" where
  "expected_goals home_stats away_stats avgs =
     bind_err (dict_get home_stats ''attack_strength_home'') (\<lambda>ah.
     bind_err (dict_get away_stats ''defense_strength_away'') (\<lambda>da.
     bind_err (dict_get away_stats ''attack_strength_away'') (\<lambda>aa.
     bind_err (dict_get home_stats ''defense_strength_home'') (\<lambda>dh.
       Inr (ah * da * avg_home_goals avgs, aa * dh * avg_away_goals avgs)))))"

definition max_goals :: nat where
  "max_goals = 7"

record sim_state =
  home_win_prob :: real
  away_win_prob :: real
  draw_prob :: real
  score_probabilities :: "real py_dict"

definition init_state :: sim_state where
  "init_state = \<lparr>home_win_prob = 0, away_win_prob = 0, draw_prob = 0, score_probabilities = []\<rparr>"

text \<open>Lines 129-138: the body of the inner loop.\<close>

definition scoreline :: "nat \<Rightarrow> nat \<Rightarrow> string" where
  "scoreline home_goals away_goals = str_nat home_goals @ ''-'' @ str_nat away_goals"

definition cell_step ::
  "(nat \<Rightarrow> real \<Rightarrow> real) \<Rightarrow> real \<Rightarrow> real \<Rightarrow> nat \<Rightarrow> sim_state \<Rightarrow> nat \<Rightarrow> sim_state" where
  "cell_step pmf lambda_home lambda_away home_goals st away_goals =
     (let prob = pmf home_goals lambda_home * pmf away_goals lambda_away;
          st1 = st\<lparr>score_probabilities :=
                  dict_set (score_probabilities st) (scoreline home_goals away_goals) prob\<rparr>
      in if home_goals > away_goals then st1\<lparr>home_win_prob := home_win_prob st1 + prob\<rparr>
         else if away_goals > home_goals then st1\<lparr>away_win_prob := away_win_prob st1 + prob\<rparr>
         else st1\<lparr>draw_prob := draw_prob st1 + prob\<rparr>)"

text \<open>Lines 127-138: the two nested loops over \<^verbatim>\<open>range(max_goals + 1)\<close>.\<close>

definition score_loop :: "(nat \<Rightarrow> real \<Rightarrow> real) \<Rightarrow> real \<Rightarrow> real \<Rightarrow> sim_state" where
  "score_loop pmf lambda_home lambda_away =
     foldl (\<lambda>st home_goals.
              foldl (cell_step pmf lambda_home lambda_away home_goals) st [0..<max_goals + 1])
       init_state [0..<max_goals + 1]"

text \<open>Lines 140-145.\<close>

definition normalise :: "real \<times> real \<times> real \<Rightarrow> py_error + real \<times> real \<times> real" where
  "normalise p =
     (case p of (hw, aw, dr) \<Rightarrow>
        let total_calculated_prob = hw + aw + dr
        in if total_calculated_prob > 0 then
             bind_err (py_div hw total_calculated_prob) (\<lambda>hw'.
             bind_err (py_div aw total_calculated_prob) (\<lambda>aw'.
             bind_err (py_div dr total_calculated_prob) (\<lambda>dr'.
               Inr (hw', aw', dr'))))
           else Inr (hw, aw, dr))"

text \<open>Lines 147-151.\<close>

definition top_five :: "real py_dict \<Rightarrow> (string \<times> real) list" where
  "top_five score_probs =
     map (\<lambda>(score, prob). (score, py_round2 (prob * 100))) (take 5 (sorted_desc score_probs))"

text \<open>Lines 118-167, from the two checked stats dicts to the returned dict.\<close>

definition simulate ::
  "(nat \<Rightarrow> real \<Rightarrow> real) \<Rightarrow> stats_dict \<Rightarrow> stats_dict \<Rightarrow> league_avgs \<Rightarrow> py_error + prediction" where
  "simulate pmf home_stats away_stats avgs =
     bind_err (expected_goals home_stats away_stats avgs) (\<lambda>(lambda_home, lambda_away).
       let st = score_loop pmf lambda_home lambda_away
       in bind_err (normalise (home_win_prob st, away_win_prob st, draw_prob st))
            (\<lambda>(hw, aw, dr).
               Inr \<lparr>home_team_win_probability = py_round2 (hw * 100),
                    away_team_win_probability = py_round2 (aw * 100),
                    draw_probability = py_round2 (dr * 100),
                    predicted_goals_home = py_round2 lambda_home,
                    predicted_goals_away = py_round2 lambda_away,
                    top_five_scores = top_five (score_probabilities st),
                    league_averages = avgs,
                    home_team_stats = home_stats,
                    away_team_stats = away_stats,
                    home_expected_goals = lambda_home,
                    away_expected_goals = lambda_away\<rparr>))"

subsection \<open>The orchestration (lines 28-116)\<close>

text \<open>
  The collaborators: the clock, \<^verbatim>\<open>retrieve_matches_for_team(league_id, season, team_id=None)\<close>
  (a list of matches or None), \<^verbatim>\<open>calculate_league_averages\<close>,
  \<^verbatim>\<open>filter_matches_by_team_id\<close> and \<^verbatim>\<open>calculate_final_team_stats\<close>.
\<close>

record 'm env =
  now :: datetime
  retrieve_matches_for_team :: "int \<Rightarrow> int \<Rightarrow> 'm list option"
  calculate_league_averages :: "'m list \<Rightarrow> league_avgs"
  filter_matches_by_team_id :: "int \<Rightarrow> 'm list \<Rightarrow> 'm list"
  calculate_final_team_stats :: "int \<Rightarrow> int \<Rightarrow> int \<Rightarrow> league_avgs \<Rightarrow> 'm list \<Rightarrow> provider_return"

text \<open>\<^verbatim>\<open>x or []\<close>.\<close>

definition or_empty :: "'m list option \<Rightarrow> 'm list" where
  "or_empty r = (case r of None \<Rightarrow> [] | Some ms \<Rightarrow> ms)"

text \<open>Lines 60-167, once the season and its matches are settled.\<close>

definition predict_from ::
  "(nat \<Rightarrow> real \<Rightarrow> real) \<Rightarrow> 'm env \<Rightarrow> int \<Rightarrow> int \<Rightarrow> int \<Rightarrow> league_avgs \<Rightarrow> 'm list \<Rightarrow> int
     \<Rightarrow> py_error + result" where
  "predict_from pmf e home_team_id away_team_id league_id avgs all_matches current_season =
     (if all_matches = [] then
        Inr (Error_dict (''No match data found for the league in season '' @ str_int current_season
               @ '' to calculate averages.''))
      else
        let home_team_matches = filter_matches_by_team_id e home_team_id all_matches;
            away_team_matches = filter_matches_by_team_id e away_team_id all_matches;
            home_stats = checked_stats (calculate_final_team_stats e current_season league_id
                           home_team_id avgs home_team_matches);
            away_stats = checked_stats (calculate_final_team_stats e current_season league_id
                           away_team_id avgs away_team_matches)
        in bind_err (simulate pmf home_stats away_stats avgs) (\<lambda>p. Inr (Prediction p)))"

text \<open>Lines 38-58, then the rest.\<close>

definition predict_match ::
  "(nat \<Rightarrow> real \<Rightarrow> real) \<Rightarrow> 'm env \<Rightarrow> int \<Rightarrow> int \<Rightarrow> int \<Rightarrow> py_error + result" where
  "predict_match pmf e home_team_id away_team_id league_id =
     (let current_season = get_current_season (now e);
          all_matches_current_season = or_empty (retrieve_matches_for_team e league_id current_season);
          avgs = calculate_league_averages e all_matches_current_season
      in if avg_home_goals avgs = 0 \<and> avg_away_goals avgs = 0 then
           let previous_season = current_season - 1;
               all_matches_previous_season =
                 or_empty (retrieve_matches_for_team e league_id previous_season)
           in if all_matches_previous_season \<noteq> [] then
                predict_from pmf e home_team_id away_team_id league_id
                  (calculate_league_averages e all_matches_previous_season)
                  all_matches_previous_season previous_season
              else
                Inr (Error_dict (''No match data found for the league in season ''
                       @ str_int current_season @ '' or '' @ str_int previous_season
                       @ '' to calculate averages.''))
         else predict_from pmf e home_team_id away_team_id league_id avgs
                all_matches_current_season current_season)"

section \<open>Notions used to state the properties\<close>

text \<open>
  A team's strength record, as the specification names its four coefficients, and what it
  means for a stats dict to carry one.
\<close>

record team_strength =
  attackHome :: real
  defenseHome :: real
  attackAway :: real
  defenseAway :: real

definition has_strength :: "stats_dict \<Rightarrow> team_strength \<Rightarrow> bool" where
  "has_strength d ts =
     (dict_get d ''attack_strength_home'' = Inr (attackHome ts) \<and>
      dict_get d ''defense_strength_home'' = Inr (defenseHome ts) \<and>
      dict_get d ''attack_strength_away'' = Inr (attackAway ts) \<and>
      dict_get d ''defense_strength_away'' = Inr (defenseAway ts))"

definition stats_of :: "team_strength \<Rightarrow> stats_dict" where
  "stats_of ts =
     [(''attack_strength_home'', attackHome ts), (''defense_strength_home'', defenseHome ts),
      (''attack_strength_away'', attackAway ts), (''defense_strength_away'', defenseAway ts)]"

definition zero_strength :: team_strength where
  "zero_strength = \<lparr>attackHome = 0, defenseHome = 0, attackAway = 0, defenseAway = 0\<rparr>"

definition nonneg_strength :: "team_strength \<Rightarrow> bool" where
  "nonneg_strength ts =
     (0 \<le> attackHome ts \<and> 0 \<le> defenseHome ts \<and> 0 \<le> attackAway ts \<and> 0 \<le> defenseAway ts)"

definition nonneg_avgs :: "league_avgs \<Rightarrow> bool" where
  "nonneg_avgs avgs = (0 \<le> avg_home_goals avgs \<and> 0 \<le> avg_away_goals avgs)"

definition swap_avgs :: "league_avgs \<Rightarrow> league_avgs" where
  "swap_avgs avgs = \<lparr>avg_home_goals = avg_away_goals avgs, avg_away_goals = avg_home_goals avgs\<rparr>"

text \<open>
  The scoreline entries in the order the nested loops enumerate them: ascending home goals,
  then ascending away goals.
\<close>

definition score_entries :: "(nat \<Rightarrow> real \<Rightarrow> real) \<Rightarrow> real \<Rightarrow> real \<Rightarrow> (string \<times> real) list" where
  "score_entries pmf lh la =
     concat (map (\<lambda>h. map (\<lambda>a. (scoreline h a, pmf h lh * pmf a la)) [0..<max_goals + 1])
                 [0..<max_goals + 1])"

text \<open>
  The three accumulated sums over the grid of cells, their total, and a sum divided
  by the total when the total is positive.
\<close>

definition sum_home :: "(nat \<Rightarrow> real \<Rightarrow> real) \<Rightarrow> real \<Rightarrow> real \<Rightarrow> real" where
  "sum_home pmf lh la = (\<Sum>h<8. \<Sum>a<8. if a < h then pmf h lh * pmf a la else 0)"

definition sum_away :: "(nat \<Rightarrow> real \<Rightarrow> real) \<Rightarrow> real \<Rightarrow> real \<Rightarrow> real" where
  "sum_away pmf lh la = (\<Sum>h<8. \<Sum>a<8. if h < a then pmf h lh * pmf a la else 0)"

definition sum_draw :: "(nat \<Rightarrow> real \<Rightarrow> real) \<Rightarrow> real \<Rightarrow> real \<Rightarrow> real" where
  "sum_draw pmf lh la = (\<Sum>h<8. \<Sum>a<8. if a = h then pmf h lh * pmf a la else 0)"

definition sum_total :: "(nat \<Rightarrow> real \<Rightarrow> real) \<Rightarrow> real \<Rightarrow> real \<Rightarrow> real" where
  "sum_total pmf lh la = sum_home pmf lh la + sum_away pmf lh la + sum_draw pmf lh la"

definition share :: "real \<Rightarrow> real \<Rightarrow> real" where
  "share x t = (if t > 0 then x / t else x)"

text \<open>Line 140: the total that the guard of line 142 tests.\<close>

definition total_calculated_prob :: "(nat \<Rightarrow> real \<Rightarrow> real) \<Rightarrow> real \<Rightarrow> real \<Rightarrow> real" where
  "total_calculated_prob pmf lambda_home lambda_away =
     (let st = score_loop pmf lambda_home lambda_away
      in home_win_prob st + away_win_prob st + draw_prob st)"

text \<open>Lines 123-145 alone: the outcome probabilities before they are rounded.\<close>

definition outcome_probs :: "(nat \<Rightarrow> real \<Rightarrow> real) \<Rightarrow> real \<Rightarrow> real \<Rightarrow> py_error + real \<times> real \<times> real" where
  "outcome_probs pmf lambda_home lambda_away =
     (let st = score_loop pmf lambda_home lambda_away
      in normalise (home_win_prob st, away_win_prob st, draw_prob st))"

text \<open>The three percentages of a returned prediction.\<close>

definition percentages :: "py_error + prediction \<Rightarrow> py_error + real \<times> real \<times> real" where
  "percentages res =
     map_sum id (\<lambda>r. (home_team_win_probability r, away_team_win_probability r, draw_probability r)) res"

text \<open>The Poisson probability without its factor \<open>exp (- mu)\<close>.\<close>

definition poisson_weight :: "nat \<Rightarrow> real \<Rightarrow> real" where
  "poisson_weight k mu = mu ^ k / fact k"

section \<open>Auxiliary facts\<close>

subsection \<open>Evaluation of strings and ranges\<close>

declare str_nat.simps [simp del]

lemma upt8: "[0..<8] = [0, 1, 2, 3, 4, 5, 6, 7::nat]"
  by code_simp

lemma lessThan8: "{..<8::nat} = {0, 1, 2, 3, 4, 5, 6, 7}"
  by auto

lemma facts8: "fact 0 = (1::real)" "fact 1 = (1::real)" "fact 2 = (2::real)" "fact 3 = (6::real)" "fact 4 = (24::real)"
  "fact 5 = (120::real)" "fact 6 = (720::real)" "fact 7 = (5040::real)"
  by (simp_all add: fact_numeral)

lemma scorelines8:
  "map (\<lambda>h. map (scoreline h) [0, 1, 2, 3, 4, 5, 6, 7]) [0, 1, 2, 3, 4, 5, 6, 7] =
   [[''0-0'', ''0-1'', ''0-2'', ''0-3'', ''0-4'', ''0-5'', ''0-6'', ''0-7''],
    [''1-0'', ''1-1'', ''1-2'', ''1-3'', ''1-4'', ''1-5'', ''1-6'', ''1-7''],
    [''2-0'', ''2-1'', ''2-2'', ''2-3'', ''2-4'', ''2-5'', ''2-6'', ''2-7''],
    [''3-0'', ''3-1'', ''3-2'', ''3-3'', ''3-4'', ''3-5'', ''3-6'', ''3-7''],
    [''4-0'', ''4-1'', ''4-2'', ''4-3'', ''4-4'', ''4-5'', ''4-6'', ''4-7''],
    [''5-0'', ''5-1'', ''5-2'', ''5-3'', ''5-4'', ''5-5'', ''5-6'', ''5-7''],
    [''6-0'', ''6-1'', ''6-2'', ''6-3'', ''6-4'', ''6-5'', ''6-6'', ''6-7''],
    [''7-0'', ''7-1'', ''7-2'', ''7-3'', ''7-4'', ''7-5'', ''7-6'', ''7-7'']]"
  by code_simp

lemma scorelines_distinct:
  "distinct (concat (map (\<lambda>h. map (\<lambda>a. scoreline h a) [0..<8]) [0..<8]))"
  by code_simp

subsection \<open>Rounding\<close>



lemma round_half_even_mono: "x \<le> y \<Longrightarrow> round_half_even x \<le> round_half_even y"
proof -
  assume xy: "x \<le> y"
  have fl: "\<lfloor>x\<rfloor> \<le> \<lfloor>y\<rfloor>" using xy by (rule floor_mono)
  have lo: "\<lfloor>y\<rfloor> \<le> round_half_even y"
    unfolding round_half_even_def Let_def by simp
  have hi: "round_half_even x \<le> \<lfloor>x\<rfloor> + 1"
    unfolding round_half_even_def Let_def by simp
  show ?thesis
  proof (cases "\<lfloor>x\<rfloor> = \<lfloor>y\<rfloor>")
    case True
    with xy show ?thesis
      unfolding round_half_even_def Let_def by auto
  next
    case False
    with fl have "\<lfloor>x\<rfloor> + 1 \<le> \<lfloor>y\<rfloor>" by simp
    with lo hi show ?thesis by linarith
  qed
qed

lemma py_round2_mono: "x \<le> y \<Longrightarrow> py_round2 x \<le> py_round2 y"
  unfolding py_round2_def by (simp add: round_half_even_mono divide_right_mono)

lemma py_round2_0: "py_round2 0 = 0"
  by (simp add: py_round2_def round_half_even_def)

lemma py_round2_100: "py_round2 100 = 100"
  by (simp add: py_round2_def round_half_even_def)

subsection \<open>The stable descending sort\<close>

lemma mset_insert_desc: "mset (insert_desc x ys) = add_mset x (mset ys)"
  by (induction ys) auto

lemma mset_sorted_desc: "mset (sorted_desc xs) = mset xs"
  by (induction xs) (auto simp: sorted_desc_def mset_insert_desc)

lemma set_insert_desc: "set (insert_desc x ys) = insert x (set ys)"
  by (induction ys) auto

lemma sorted_insert_desc:
  "sorted_wrt (\<lambda>p q. snd q \<le> snd p) ys \<Longrightarrow> sorted_wrt (\<lambda>p q. snd q \<le> snd p) (insert_desc x ys)"
  by (induction ys) (auto simp: set_insert_desc)

lemma sorted_sorted_desc: "sorted_wrt (\<lambda>p q. snd q \<le> snd p) (sorted_desc xs)"
  by (induction xs) (auto simp: sorted_desc_def sorted_insert_desc)

lemma filter_insert_desc_other:
  "snd x \<noteq> v \<Longrightarrow> filter (\<lambda>e. snd e = v) (insert_desc x ys) = filter (\<lambda>e. snd e = v) ys"
  by (induction ys) auto

lemma filter_insert_desc_same:
  "sorted_wrt (\<lambda>p q. snd q \<le> snd p) ys \<Longrightarrow>
   filter (\<lambda>e. snd e = snd x) (insert_desc x ys) = x # filter (\<lambda>e. snd e = snd x) ys"
proof (induction ys)
  case Nil
  show ?case by simp
next
  case (Cons y ys)
  show ?case
  proof (cases "snd y \<le> snd x")
    case True
    then show ?thesis by simp
  next
    case False
    then have "snd y \<noteq> snd x" by auto
    with False Cons show ?thesis by simp
  qed
qed

lemma sorted_desc_stable:
  "filter (\<lambda>e. snd e = v) (sorted_desc xs) = filter (\<lambda>e. snd e = v) xs"
proof (induction xs)
  case Nil
  show ?case by (simp add: sorted_desc_def)
next
  case (Cons x xs)
  have unfold: "sorted_desc (x # xs) = insert_desc x (sorted_desc xs)"
    by (simp add: sorted_desc_def)
  show ?case
  proof (cases "snd x = v")
    case True
    with Cons show ?thesis
      using filter_insert_desc_same [OF sorted_sorted_desc, of x xs] by (simp add: unfold)
  next
    case False
    with Cons show ?thesis
      by (simp add: unfold filter_insert_desc_other)
  qed
qed

subsection \<open>Stats dicts\<close>

lemma has_strength_stats_of: "has_strength (stats_of ts) ts"
  by (simp add: has_strength_def stats_of_def dict_get_def)

lemma has_strength_zero:
  "has_strength zero_stats \<lparr>attackHome = 0, defenseHome = 0, attackAway = 0, defenseAway = 0\<rparr>"
  by (simp add: has_strength_def zero_stats_def dict_get_def)

lemma key_in_strength: "list_all (\<lambda>key. key_in key d) required_keys \<Longrightarrow> \<exists>ts. has_strength d ts"
proof -
  assume "list_all (\<lambda>key. key_in key d) required_keys"
  then obtain a b c e where
    "map_of d ''attack_strength_home'' = Some a" "map_of d ''defense_strength_home'' = Some b"
    "map_of d ''attack_strength_away'' = Some c" "map_of d ''defense_strength_away'' = Some e"
    by (auto simp: required_keys_def key_in_def)
  then have "has_strength d \<lparr>attackHome = a, defenseHome = b, attackAway = c, defenseAway = e\<rparr>"
    by (simp add: has_strength_def dict_get_def)
  then show ?thesis ..
qed

lemma checked_stats_keys: "list_all (\<lambda>key. key_in key (checked_stats r)) required_keys"
  by (cases r) (auto simp: checked_stats_def zero_stats_def required_keys_def key_in_def)

lemma checked_stats_strength: "\<exists>ts. has_strength (checked_stats r) ts"
  by (rule key_in_strength [OF checked_stats_keys])

lemma expected_goals_strength:
  "has_strength home hs \<Longrightarrow> has_strength away as \<Longrightarrow>
   expected_goals home away avgs =
     Inr (attackHome hs * defenseAway as * avg_home_goals avgs,
          attackAway as * defenseHome hs * avg_away_goals avgs)"
  by (simp add: has_strength_def expected_goals_def bind_err_def)

subsection \<open>The loops\<close>

lemma inner_loop:
  "foldl (cell_step pmf lh la h) st [0..<n] =
     \<lparr>home_win_prob = home_win_prob st + (\<Sum>a<n. if a < h then pmf h lh * pmf a la else 0),
      away_win_prob = away_win_prob st + (\<Sum>a<n. if h < a then pmf h lh * pmf a la else 0),
      draw_prob = draw_prob st + (\<Sum>a<n. if a = h then pmf h lh * pmf a la else 0),
      score_probabilities =
        foldl (\<lambda>d kv. dict_set d (fst kv) (snd kv)) (score_probabilities st)
          (map (\<lambda>a. (scoreline h a, pmf h lh * pmf a la)) [0..<n])\<rparr>"
proof (induction n)
  case 0
  show ?case by simp
next
  case (Suc n)
  have "foldl (cell_step pmf lh la h) st [0..<Suc n] =
          cell_step pmf lh la h (foldl (cell_step pmf lh la h) st [0..<n]) n"
    by simp
  also have "\<dots> = cell_step pmf lh la h
     \<lparr>home_win_prob = home_win_prob st + (\<Sum>a<n. if a < h then pmf h lh * pmf a la else 0),
      away_win_prob = away_win_prob st + (\<Sum>a<n. if h < a then pmf h lh * pmf a la else 0),
      draw_prob = draw_prob st + (\<Sum>a<n. if a = h then pmf h lh * pmf a la else 0),
      score_probabilities =
        foldl (\<lambda>d kv. dict_set d (fst kv) (snd kv)) (score_probabilities st)
          (map (\<lambda>a. (scoreline h a, pmf h lh * pmf a la)) [0..<n])\<rparr> n"
    by (simp only: Suc)
  also have "\<dots> =
     \<lparr>home_win_prob = home_win_prob st + (\<Sum>a<Suc n. if a < h then pmf h lh * pmf a la else 0),
      away_win_prob = away_win_prob st + (\<Sum>a<Suc n. if h < a then pmf h lh * pmf a la else 0),
      draw_prob = draw_prob st + (\<Sum>a<Suc n. if a = h then pmf h lh * pmf a la else 0),
      score_probabilities =
        foldl (\<lambda>d kv. dict_set d (fst kv) (snd kv)) (score_probabilities st)
          (map (\<lambda>a. (scoreline h a, pmf h lh * pmf a la)) [0..<Suc n])\<rparr>"
    unfolding cell_step_def Let_def sum.lessThan_Suc by simp
  finally show ?case .
qed

lemma outer_loop:
  "foldl (\<lambda>st h. foldl (cell_step pmf lh la h) st [0..<m]) st [0..<n] =
     \<lparr>home_win_prob = home_win_prob st + (\<Sum>h<n. \<Sum>a<m. if a < h then pmf h lh * pmf a la else 0),
      away_win_prob = away_win_prob st + (\<Sum>h<n. \<Sum>a<m. if h < a then pmf h lh * pmf a la else 0),
      draw_prob = draw_prob st + (\<Sum>h<n. \<Sum>a<m. if a = h then pmf h lh * pmf a la else 0),
      score_probabilities =
        foldl (\<lambda>d kv. dict_set d (fst kv) (snd kv)) (score_probabilities st)
          (concat (map (\<lambda>h. map (\<lambda>a. (scoreline h a, pmf h lh * pmf a la)) [0..<m]) [0..<n]))\<rparr>"
proof (induction n)
  case 0
  show ?case by simp
next
  case (Suc n)
  have "foldl (\<lambda>st h. foldl (cell_step pmf lh la h) st [0..<m]) st [0..<Suc n] =
          foldl (cell_step pmf lh la n)
            (foldl (\<lambda>st h. foldl (cell_step pmf lh la h) st [0..<m]) st [0..<n]) [0..<m]"
    by simp
  also have "\<dots> = foldl (cell_step pmf lh la n)
     \<lparr>home_win_prob = home_win_prob st + (\<Sum>h<n. \<Sum>a<m. if a < h then pmf h lh * pmf a la else 0),
      away_win_prob = away_win_prob st + (\<Sum>h<n. \<Sum>a<m. if h < a then pmf h lh * pmf a la else 0),
      draw_prob = draw_prob st + (\<Sum>h<n. \<Sum>a<m. if a = h then pmf h lh * pmf a la else 0),
      score_probabilities =
        foldl (\<lambda>d kv. dict_set d (fst kv) (snd kv)) (score_probabilities st)
          (concat (map (\<lambda>h. map (\<lambda>a. (scoreline h a, pmf h lh * pmf a la)) [0..<m]) [0..<n]))\<rparr>
     [0..<m]"
    by (simp only: Suc)
  also have "\<dots> =
     \<lparr>home_win_prob = home_win_prob st + (\<Sum>h<Suc n. \<Sum>a<m. if a < h then pmf h lh * pmf a la else 0),
      away_win_prob = away_win_prob st + (\<Sum>h<Suc n. \<Sum>a<m. if h < a then pmf h lh * pmf a la else 0),
      draw_prob = draw_prob st + (\<Sum>h<Suc n. \<Sum>a<m. if a = h then pmf h lh * pmf a la else 0),
      score_probabilities =
        foldl (\<lambda>d kv. dict_set d (fst kv) (snd kv)) (score_probabilities st)
          (concat (map (\<lambda>h. map (\<lambda>a. (scoreline h a, pmf h lh * pmf a la)) [0..<m]) [0..<Suc n]))\<rparr>"
    unfolding inner_loop sum.lessThan_Suc by simp
  finally show ?case .
qed

lemma dict_set_fresh: "k \<notin> fst ` set d \<Longrightarrow> dict_set d k v = d @ [(k, v)]"
  by (induction d) auto

lemma dict_fill_distinct:
  "distinct (map fst kvs) \<Longrightarrow> fst ` set kvs \<inter> fst ` set d = {} \<Longrightarrow>
   foldl (\<lambda>d kv. dict_set d (fst kv) (snd kv)) d kvs = d @ kvs"
proof (induction kvs arbitrary: d)
  case Nil
  show ?case by simp
next
  case (Cons kv kvs)
  from Cons.prems have fresh: "fst kv \<notin> fst ` set d" by auto
  have step: "dict_set d (fst kv) (snd kv) = d @ [kv]"
    using dict_set_fresh [OF fresh] by simp
  from Cons.prems have "distinct (map fst kvs)"
    and "fst ` set kvs \<inter> fst ` set (d @ [kv]) = {}" by auto
  then have "foldl (\<lambda>d kv. dict_set d (fst kv) (snd kv)) (d @ [kv]) kvs = (d @ [kv]) @ kvs"
    by (rule Cons.IH)
  then show ?case by (simp add: step)
qed

lemma score_entries_keys:
  "map fst (score_entries pmf lh la) = concat (map (\<lambda>h. map (\<lambda>a. scoreline h a) [0..<8]) [0..<8])"
  by (simp add: score_entries_def max_goals_def map_concat comp_def)

lemma score_loop_eq:
  "score_loop pmf lh la =
     \<lparr>home_win_prob = (\<Sum>h<8. \<Sum>a<8. if a < h then pmf h lh * pmf a la else 0),
      away_win_prob = (\<Sum>h<8. \<Sum>a<8. if h < a then pmf h lh * pmf a la else 0),
      draw_prob = (\<Sum>h<8. \<Sum>a<8. if a = h then pmf h lh * pmf a la else 0),
      score_probabilities = score_entries pmf lh la\<rparr>"
proof -
  have "distinct (map fst (score_entries pmf lh la))"
    by (simp only: score_entries_keys scorelines_distinct)
  then have "foldl (\<lambda>d kv. dict_set d (fst kv) (snd kv)) [] (score_entries pmf lh la)
               = [] @ score_entries pmf lh la"
    by (rule dict_fill_distinct) simp
  then show ?thesis
    by (simp add: score_loop_def outer_loop init_state_def score_entries_def max_goals_def)
qed

lemma score_loop_sums:
  "score_loop pmf lh la =
     \<lparr>home_win_prob = sum_home pmf lh la, away_win_prob = sum_away pmf lh la,
      draw_prob = sum_draw pmf lh la, score_probabilities = score_entries pmf lh la\<rparr>"
  by (simp only: score_loop_eq sum_home_def sum_away_def sum_draw_def)

subsection \<open>Normalisation and the returned record\<close>

lemma normalise_eq:
  "normalise (hw, aw, dr) =
     Inr (if hw + aw + dr > 0 then (hw / (hw + aw + dr), aw / (hw + aw + dr), dr / (hw + aw + dr))
          else (hw, aw, dr))"
  by (simp add: normalise_def Let_def py_div_def bind_err_def)

lemma normalise_sum:
  "hw + aw + dr > 0 \<Longrightarrow> hw / (hw + aw + dr) + aw / (hw + aw + dr) + dr / (hw + aw + dr) = (1::real)"
  by (simp add: add_divide_distrib [symmetric])


lemma outcome_probs_eq:
  "outcome_probs pmf lh la =
     Inr (share (sum_home pmf lh la) (sum_total pmf lh la),
          share (sum_away pmf lh la) (sum_total pmf lh la),
          share (sum_draw pmf lh la) (sum_total pmf lh la))"
  by (simp add: outcome_probs_def score_loop_sums normalise_eq share_def sum_total_def)

lemma simulate_eq:
  assumes "expected_goals home away avgs = Inr (lh, la)"
  shows "simulate pmf home away avgs =
     Inr \<lparr>home_team_win_probability = py_round2 (share (sum_home pmf lh la) (sum_total pmf lh la) * 100),
          away_team_win_probability = py_round2 (share (sum_away pmf lh la) (sum_total pmf lh la) * 100),
          draw_probability = py_round2 (share (sum_draw pmf lh la) (sum_total pmf lh la) * 100),
          predicted_goals_home = py_round2 lh,
          predicted_goals_away = py_round2 la,
          top_five_scores = top_five (score_entries pmf lh la),
          league_averages = avgs,
          home_team_stats = home,
          away_team_stats = away,
          home_expected_goals = lh,
          away_expected_goals = la\<rparr>"
  by (simp add: simulate_def assms bind_err_def score_loop_sums normalise_eq share_def sum_total_def)

lemma simulate_strength:
  assumes "has_strength home hs" "has_strength away as"
  shows "simulate pmf home away avgs =
     Inr \<lparr>home_team_win_probability =
            py_round2 (share (sum_home pmf (attackHome hs * defenseAway as * avg_home_goals avgs)
                                          (attackAway as * defenseHome hs * avg_away_goals avgs))
                             (sum_total pmf (attackHome hs * defenseAway as * avg_home_goals avgs)
                                          (attackAway as * defenseHome hs * avg_away_goals avgs)) * 100),
          away_team_win_probability =
            py_round2 (share (sum_away pmf (attackHome hs * defenseAway as * avg_home_goals avgs)
                                          (attackAway as * defenseHome hs * avg_away_goals avgs))
                             (sum_total pmf (attackHome hs * defenseAway as * avg_home_goals avgs)
                                          (attackAway as * defenseHome hs * avg_away_goals avgs)) * 100),
          draw_probability =
            py_round2 (share (sum_draw pmf (attackHome hs * defenseAway as * avg_home_goals avgs)
                                          (attackAway as * defenseHome hs * avg_away_goals avgs))
                             (sum_total pmf (attackHome hs * defenseAway as * avg_home_goals avgs)
                                          (attackAway as * defenseHome hs * avg_away_goals avgs)) * 100),
          predicted_goals_home = py_round2 (attackHome hs * defenseAway as * avg_home_goals avgs),
          predicted_goals_away = py_round2 (attackAway as * defenseHome hs * avg_away_goals avgs),
          top_five_scores =
            top_five (score_entries pmf (attackHome hs * defenseAway as * avg_home_goals avgs)
                                        (attackAway as * defenseHome hs * avg_away_goals avgs)),
          league_averages = avgs,
          home_team_stats = home,
          away_team_stats = away,
          home_expected_goals = attackHome hs * defenseAway as * avg_home_goals avgs,
          away_expected_goals = attackAway as * defenseHome hs * avg_away_goals avgs\<rparr>"
  by (rule simulate_eq [OF expected_goals_strength [OF assms]])

lemma simulate_total:
  assumes "has_strength home hs" "has_strength away as"
  shows "\<exists>r. simulate pmf home away avgs = Inr r"
  by (simp add: simulate_strength [OF assms])

lemma predict_from_total:
  "\<exists>res. predict_from pmf e h a l avgs ms s = Inr res"
proof (cases "ms = []")
  case True
  then show ?thesis by (simp add: predict_from_def)
next
  case False
  obtain hs where hs: "has_strength (checked_stats (calculate_final_team_stats e s l h avgs
      (filter_matches_by_team_id e h ms))) hs"
    using checked_stats_strength by blast
  obtain as where as: "has_strength (checked_stats (calculate_final_team_stats e s l a avgs
      (filter_matches_by_team_id e a ms))) as"
    using checked_stats_strength by blast
  from simulate_total [OF hs as] obtain r where
    "simulate pmf (checked_stats (calculate_final_team_stats e s l h avgs
        (filter_matches_by_team_id e h ms)))
      (checked_stats (calculate_final_team_stats e s l a avgs
        (filter_matches_by_team_id e a ms))) avgs = Inr r"
    by blast
  with False show ?thesis
    by (simp add: predict_from_def Let_def bind_err_def)
qed

lemma predict_match_total:
  "\<exists>res. predict_match pmf e h a l = Inr res"
  unfolding predict_match_def Let_def
  by (simp add: predict_from_total)

subsection \<open>The sums under a swap of the two rates\<close>

lemma sum_total_product: "sum_total pmf lh la = (\<Sum>h<8. pmf h lh) * (\<Sum>a<8. pmf a la)"
proof -
  have cell: "(if a < h then x else 0) + (if h < a then x else 0) + (if a = h then x else 0) = x"
    for a h :: nat and x :: real
    by auto
  have "sum_total pmf lh la =
      (\<Sum>h<8. \<Sum>a<8. (if a < h then pmf h lh * pmf a la else 0)
          + (if h < a then pmf h lh * pmf a la else 0) + (if a = h then pmf h lh * pmf a la else 0))"
    by (simp only: sum_total_def sum_home_def sum_away_def sum_draw_def sum.distrib)
  also have "\<dots> = (\<Sum>h<8. \<Sum>a<8. pmf h lh * pmf a la)"
    by (simp only: cell)
  also have "\<dots> = (\<Sum>h<8. pmf h lh) * (\<Sum>a<8. pmf a la)"
    by (simp only: sum_product)
  finally show ?thesis .
qed

lemma sum_home_swap: "sum_home pmf la lh = sum_away pmf lh la"
proof -
  have "sum_home pmf la lh = (\<Sum>a<8. \<Sum>h<8. if a < h then pmf h la * pmf a lh else 0)"
    unfolding sum_home_def by (rule sum.swap)
  also have "\<dots> = sum_away pmf lh la"
    unfolding sum_away_def by (simp add: mult.commute cong: if_cong)
  finally show ?thesis .
qed

lemma sum_away_swap: "sum_away pmf la lh = sum_home pmf lh la"
  by (rule sum_home_swap [symmetric])

lemma sum_draw_swap: "sum_draw pmf la lh = sum_draw pmf lh la"
proof -
  have "sum_draw pmf la lh = (\<Sum>a<8. \<Sum>h<8. if a = h then pmf h la * pmf a lh else 0)"
    unfolding sum_draw_def by (rule sum.swap)
  also have "\<dots> = sum_draw pmf lh la"
    unfolding sum_draw_def by (intro sum.cong refl) (auto simp: mult.commute)
  finally show ?thesis .
qed

lemma sum_total_swap: "sum_total pmf la lh = sum_total pmf lh la"
  unfolding sum_total_def sum_home_swap [of pmf la lh] sum_away_swap [of pmf la lh]
    sum_draw_swap [of pmf la lh] by simp

subsection \<open>Poisson probabilities\<close>

lemma poisson_pmf_weight: "poisson_pmf k mu = exp (- mu) * poisson_weight k mu"
  by (simp add: poisson_pmf_def poisson_weight_def)

lemma poisson_pmf_fun: "poisson_pmf = (\<lambda>k mu. exp (- mu) * poisson_weight k mu)"
  by (intro ext) (rule poisson_pmf_weight)

lemma poisson_pmf_zero: "poisson_pmf k 0 = (if k = 0 then 1 else 0)"
  by (simp add: poisson_pmf_def)

lemma sum_home_scale:
  "sum_home (\<lambda>k mu. c mu * w k mu) lh la = c lh * c la * sum_home w lh la"
proof -
  have cell: "(if a < h then c lh * w h lh * (c la * w a la) else 0) =
        c lh * c la * (if a < h then w h lh * w a la else 0)" for a h :: nat
    by simp
  show ?thesis
    unfolding sum_home_def cell sum_distrib_left [symmetric] ..
qed

lemma sum_away_scale:
  "sum_away (\<lambda>k mu. c mu * w k mu) lh la = c lh * c la * sum_away w lh la"
proof -
  have cell: "(if h < a then c lh * w h lh * (c la * w a la) else 0) =
        c lh * c la * (if h < a then w h lh * w a la else 0)" for a h :: nat
    by simp
  show ?thesis
    unfolding sum_away_def cell sum_distrib_left [symmetric] ..
qed

lemma sum_draw_scale:
  "sum_draw (\<lambda>k mu. c mu * w k mu) lh la = c lh * c la * sum_draw w lh la"
proof -
  have cell: "(if a = h then c lh * w h lh * (c la * w a la) else 0) =
        c lh * c la * (if a = h then w h lh * w a la else 0)" for a h :: nat
    by simp
  show ?thesis
    unfolding sum_draw_def cell sum_distrib_left [symmetric] ..
qed

lemma sum_total_scale:
  "sum_total (\<lambda>k mu. c mu * w k mu) lh la = c lh * c la * sum_total w lh la"
  unfolding sum_total_def sum_home_scale sum_away_scale sum_draw_scale
  by (simp add: distrib_left)

lemma share_scale: "0 < c \<Longrightarrow> share (c * x) (c * t) = (if t > 0 then x / t else c * x)"
  by (simp add: share_def zero_less_mult_iff)

lemma poisson_weight_nonneg: "0 \<le> mu \<Longrightarrow> 0 \<le> poisson_weight k mu"
  by (simp add: poisson_weight_def)

lemma poisson_weight_0: "poisson_weight 0 mu = 1"
  by (simp add: poisson_weight_def)

lemma weight_mass_pos:
  assumes "0 \<le> mu"
  shows "0 < (\<Sum>k<8. poisson_weight k mu)"
proof -
  have "(\<Sum>k\<in>{0}. poisson_weight k mu) \<le> (\<Sum>k<8. poisson_weight k mu)"
    by (rule sum_mono2) (auto simp: poisson_weight_nonneg assms)
  then show ?thesis by (simp add: poisson_weight_0)
qed

lemma weight_total_pos: "0 \<le> lh \<Longrightarrow> 0 \<le> la \<Longrightarrow> 0 < sum_total poisson_weight lh la"
  by (simp add: sum_total_product weight_mass_pos)


lemma poisson_share_home:
  assumes "0 \<le> lh" "0 \<le> la"
  shows "share (sum_home poisson_pmf lh la) (sum_total poisson_pmf lh la) =
         sum_home poisson_weight lh la / sum_total poisson_weight lh la"
  using weight_total_pos [OF assms]
  by (simp add: poisson_pmf_fun sum_total_scale sum_home_scale share_scale)

lemma poisson_share_away:
  assumes "0 \<le> lh" "0 \<le> la"
  shows "share (sum_away poisson_pmf lh la) (sum_total poisson_pmf lh la) =
         sum_away poisson_weight lh la / sum_total poisson_weight lh la"
  using weight_total_pos [OF assms]
  by (simp add: poisson_pmf_fun sum_total_scale sum_away_scale share_scale)

lemma poisson_share_draw:
  assumes "0 \<le> lh" "0 \<le> la"
  shows "share (sum_draw poisson_pmf lh la) (sum_total poisson_pmf lh la) =
         sum_draw poisson_weight lh la / sum_total poisson_weight lh la"
  using weight_total_pos [OF assms]
  by (simp add: poisson_pmf_fun sum_total_scale sum_draw_scale share_scale)

subsection \<open>The home share grows with the home rate\<close>

lemma weight_cross:
  assumes "0 \<le> x" "x \<le> y" "g < h"
  shows "poisson_weight h x * poisson_weight g y \<le> poisson_weight h y * poisson_weight g x"
proof -
  obtain d where h: "h = g + d" using assms(3) by (metis less_imp_add_positive)
  have "x ^ d \<le> y ^ d" using assms by (simp add: power_mono)
  moreover have "0 \<le> x ^ g * y ^ g" using assms by simp
  ultimately have "x ^ g * y ^ g * x ^ d \<le> x ^ g * y ^ g * y ^ d"
    by (rule mult_left_mono)
  then have "x ^ h * y ^ g \<le> y ^ h * x ^ g"
    by (simp add: h power_add mult_ac)
  then have "x ^ h * y ^ g / (fact h * fact g) \<le> y ^ h * x ^ g / (fact h * fact g)"
    by (rule divide_right_mono) simp
  then show ?thesis by (simp add: poisson_weight_def)
qed

lemma tail_ratio_mono:
  assumes "0 \<le> x" "x \<le> y"
  shows "(\<Sum>h<8. if a < h then poisson_weight h x else 0) / (\<Sum>k<8. poisson_weight k x)
       \<le> (\<Sum>h<8. if a < h then poisson_weight h y else 0) / (\<Sum>k<8. poisson_weight k y)"
proof -
  let ?T = "\<lambda>z. \<Sum>h<8::nat. if a < h then poisson_weight h z else 0"
  let ?L = "\<lambda>z. \<Sum>h<8::nat. if a < h then 0 else poisson_weight h z"
  let ?W = "\<lambda>z. \<Sum>k<8::nat. poisson_weight k z"
  have y0: "0 \<le> y" using assms by simp
  have split: "?W z = ?L z + ?T z" for z
    unfolding sum.distrib [symmetric] by (intro sum.cong refl) simp
  have "?T x * ?L y = (\<Sum>h<8. \<Sum>g<8. (if a < h then poisson_weight h x else 0)
                          * (if a < g then 0 else poisson_weight g y))"
    by (rule sum_product)
  also have "\<dots> \<le> (\<Sum>h<8. \<Sum>g<8. (if a < h then poisson_weight h y else 0)
                          * (if a < g then 0 else poisson_weight g x))"
    by (intro sum_mono) (auto simp: weight_cross [OF assms])
  also have "\<dots> = ?T y * ?L x"
    by (rule sum_product [symmetric])
  finally have "?T x * ?L y \<le> ?T y * ?L x" .
  then have cross: "?T x * ?W y \<le> ?T y * ?W x"
    by (simp add: split algebra_simps)
  have "0 < ?W x" "0 < ?W y"
    using assms y0 by (simp_all add: weight_mass_pos)
  with cross show ?thesis
    by (simp add: field_simps)
qed

lemma sum_home_tail:
  "sum_home w lh la = (\<Sum>a<8. w a la * (\<Sum>h<8. if a < h then w h lh else 0))"
proof -
  have "sum_home w lh la = (\<Sum>a<8. \<Sum>h<8. if a < h then w h lh * w a la else 0)"
    unfolding sum_home_def by (rule sum.swap)
  also have "\<dots> = (\<Sum>a<8. \<Sum>h<8. w a la * (if a < h then w h lh else 0))"
    by (intro sum.cong refl) simp
  also have "\<dots> = (\<Sum>a<8. w a la * (\<Sum>h<8. if a < h then w h lh else 0))"
    by (simp only: sum_distrib_left)
  finally show ?thesis .
qed

lemma home_share_mono:
  assumes "0 \<le> x" "x \<le> y" "0 \<le> la"
  shows "sum_home poisson_weight x la / sum_total poisson_weight x la
       \<le> sum_home poisson_weight y la / sum_total poisson_weight y la"
proof -
  let ?T = "\<lambda>a z. \<Sum>h<8::nat. if a < h then poisson_weight h z else 0"
  let ?W = "\<lambda>z. \<Sum>k<8::nat. poisson_weight k z"
  have ratio: "sum_home poisson_weight z la / sum_total poisson_weight z la =
        (\<Sum>a<8. poisson_weight a la / ?W la * (?T a z / ?W z))" for z
  proof -
    have "sum_home poisson_weight z la / sum_total poisson_weight z la =
          (\<Sum>a<8. poisson_weight a la * ?T a z) / (?W z * ?W la)"
      by (simp only: sum_home_tail sum_total_product)
    also have "\<dots> = (\<Sum>a<8. poisson_weight a la * ?T a z / (?W z * ?W la))"
      by (rule sum_divide_distrib)
    also have "\<dots> = (\<Sum>a<8. poisson_weight a la / ?W la * (?T a z / ?W z))"
      by (intro sum.cong refl) simp
    finally show ?thesis .
  qed
  have "(\<Sum>a<8. poisson_weight a la / ?W la * (?T a x / ?W x))
      \<le> (\<Sum>a<8. poisson_weight a la / ?W la * (?T a y / ?W y))"
  proof (rule sum_mono)
    fix a :: nat
    have "0 \<le> poisson_weight a la / ?W la"
      using assms(3) by (simp add: poisson_weight_nonneg sum_nonneg)
    then show "poisson_weight a la / ?W la * (?T a x / ?W x)
             \<le> poisson_weight a la / ?W la * (?T a y / ?W y)"
      using tail_ratio_mono [OF assms(1,2)] by (rule mult_left_mono [rotated])
  qed
  then show ?thesis by (simp only: ratio)
qed

subsection \<open>Both rates zero\<close>

lemma zero_entries_sorted:
  "take 5 (sorted_desc (score_entries poisson_pmf 0 0)) =
     [(''0-0'', 1), (''0-1'', 0), (''0-2'', 0), (''0-3'', 0), (''0-4'', 0)]"
  using scorelines8
  by (simp add: score_entries_def max_goals_def upt8 poisson_pmf_zero sorted_desc_def)

lemma zero_top_five:
  "top_five (score_entries poisson_pmf 0 0) =
     [(''0-0'', 100), (''0-1'', 0), (''0-2'', 0), (''0-3'', 0), (''0-4'', 0)]"
  by (simp add: top_five_def zero_entries_sorted py_round2_0 py_round2_100)

subsection \<open>Shares and their rounded percentages\<close>

lemma rates_nonneg:
  assumes "nonneg_strength hs" "nonneg_strength as" "nonneg_avgs avgs"
  shows "0 \<le> attackHome hs * defenseAway as * avg_home_goals avgs"
    and "0 \<le> attackAway as * defenseHome hs * avg_away_goals avgs"
  using assms by (simp_all add: nonneg_strength_def nonneg_avgs_def)




lemma percentages_strength:
  assumes "has_strength home hs" "has_strength away as"
    and "lh = attackHome hs * defenseAway as * avg_home_goals avgs"
    and "la = attackAway as * defenseHome hs * avg_away_goals avgs"
  shows "percentages (simulate pmf home away avgs) =
     Inr (py_round2 (share (sum_home pmf lh la) (sum_total pmf lh la) * 100),
          py_round2 (share (sum_away pmf lh la) (sum_total pmf lh la) * 100),
          py_round2 (share (sum_draw pmf lh la) (sum_total pmf lh la) * 100))"
  unfolding assms(3,4) by (simp add: percentages_def simulate_strength [OF assms(1,2)])

subsection \<open>Both rates zero: the returned record\<close>

lemma zero_sums:
  "sum_home poisson_pmf 0 0 = 0" "sum_away poisson_pmf 0 0 = 0" "sum_draw poisson_pmf 0 0 = 1"
  by (simp_all add: sum_home_def sum_away_def sum_draw_def poisson_pmf_zero lessThan8)

lemma zero_shares:
  "share (sum_home poisson_pmf 0 0) (sum_total poisson_pmf 0 0) = 0"
  "share (sum_away poisson_pmf 0 0) (sum_total poisson_pmf 0 0) = 0"
  "share (sum_draw poisson_pmf 0 0) (sum_total poisson_pmf 0 0) = 1"
  by (simp_all add: sum_total_def zero_sums share_def)

lemma zero_rates_simulate:
  assumes "expected_goals home away avgs = Inr (0, 0)"
  shows "simulate poisson_pmf home away avgs =
     Inr \<lparr>home_team_win_probability = 0, away_team_win_probability = 0, draw_probability = 100,
          predicted_goals_home = 0, predicted_goals_away = 0,
          top_five_scores =
            [(''0-0'', 100), (''0-1'', 0), (''0-2'', 0), (''0-3'', 0), (''0-4'', 0)],
          league_averages = avgs, home_team_stats = home, away_team_stats = away,
          home_expected_goals = 0, away_expected_goals = 0\<rparr>"
  by (simp add: simulate_eq [OF assms] zero_shares zero_top_five py_round2_0 py_round2_100)

lemma zero_cell: "dict_get (score_probabilities (score_loop poisson_pmf 0 0)) ''0-0'' = Inr 1"
  using scorelines8
  by (simp add: score_loop_sums score_entries_def max_goals_def upt8 poisson_pmf_zero dict_get_def)

lemma length_score_entries: "length (score_entries pmf lh la) = 64"
  by (simp add: score_entries_def max_goals_def upt8)

subsection \<open>The scenario of the specification, evaluated\<close>

text \<open>
  The rates 1.62 and 0.96 of the scenario, and the rates 1.2 and 1.5 the same records give
  once home and away are exchanged.
\<close>

lemma weights_home_a: "sum_home poisson_weight (81 / 50) (24 / 25) = 3720828619031863231118691 / 534057617187500000000000"
  by (simp add: sum_home_def poisson_weight_def lessThan8 facts8 power_divide)

lemma weights_away_a: "sum_away poisson_weight (81 / 50) (24 / 25) = 769546546187064170136 / 260770320892333984375"
  by (simp add: sum_away_def poisson_weight_def lessThan8 facts8 power_divide)

lemma weights_draw_a: "sum_draw poisson_weight (81 / 50) (24 / 25) = 149461440102786248460733 / 45634806156158447265625"
  by (simp add: sum_draw_def poisson_weight_def lessThan8 facts8 power_divide)

lemma weights_total_a: "sum_total poisson_weight (81 / 50) (24 / 25) = 1233047519814526100870094509 / 93460083007812500000000000"
  by (simp add: sum_total_def weights_home_a weights_away_a weights_draw_a)

lemma percent_home_a:
  "py_round2 (share (sum_home poisson_pmf (81 / 50) (24 / 25)) (sum_total poisson_pmf (81 / 50) (24 / 25)) * 100) = 5281 / 100"
  by (simp add: poisson_share_home weights_home_a weights_total_a py_round2_def round_half_even_def Let_def)

lemma percent_away_a:
  "py_round2 (share (sum_away poisson_pmf (81 / 50) (24 / 25)) (sum_total poisson_pmf (81 / 50) (24 / 25)) * 100) = 2237 / 100"
  by (simp add: poisson_share_away weights_away_a weights_total_a py_round2_def round_half_even_def Let_def)

lemma percent_draw_a:
  "py_round2 (share (sum_draw poisson_pmf (81 / 50) (24 / 25)) (sum_total poisson_pmf (81 / 50) (24 / 25)) * 100) = 2482 / 100"
  by (simp add: poisson_share_draw weights_draw_a weights_total_a py_round2_def round_half_even_def Let_def)

lemma weights_home_b: "sum_home poisson_weight (6 / 5) (3 / 2) = 225934647 / 50000000"
  by (simp add: sum_home_def poisson_weight_def lessThan8 facts8 power_divide)

lemma weights_away_b: "sum_away poisson_weight (6 / 5) (3 / 2) = 36771617847 / 5600000000"
  by (simp add: sum_away_def poisson_weight_def lessThan8 facts8 power_divide)

lemma weights_draw_b: "sum_draw poisson_weight (6 / 5) (3 / 2) = 46447163947 / 12250000000"
  by (simp add: sum_draw_def poisson_weight_def lessThan8 facts8 power_divide)

lemma weights_total_b: "sum_total poisson_weight (6 / 5) (3 / 2) = 2915825064037 / 196000000000"
  by (simp add: sum_total_def weights_home_b weights_away_b weights_draw_b)

lemma percent_home_b:
  "py_round2 (share (sum_home poisson_pmf (6 / 5) (3 / 2)) (sum_total poisson_pmf (6 / 5) (3 / 2)) * 100) = 3037 / 100"
  by (simp add: poisson_share_home weights_home_b weights_total_b py_round2_def round_half_even_def Let_def)

lemma percent_away_b:
  "py_round2 (share (sum_away poisson_pmf (6 / 5) (3 / 2)) (sum_total poisson_pmf (6 / 5) (3 / 2)) * 100) = 4414 / 100"
  by (simp add: poisson_share_away weights_away_b weights_total_b py_round2_def round_half_even_def Let_def)

lemma percent_draw_b:
  "py_round2 (share (sum_draw poisson_pmf (6 / 5) (3 / 2)) (sum_total poisson_pmf (6 / 5) (3 / 2)) * 100) = 2549 / 100"
  by (simp add: poisson_share_draw weights_draw_b weights_total_b py_round2_def round_half_even_def Let_def)

lemma weights_home_c: "sum_home poisson_weight (81 / 40) (24 / 25) = 1372497966334229066752941 / 112000000000000000000000"
  by (simp add: sum_home_def poisson_weight_def lessThan8 facts8 power_divide)

lemma weights_total_c: "sum_total poisson_weight (81 / 40) (24 / 25) = 387352771906813585503904579 / 19600000000000000000000000"
  by (simp add: sum_total_product poisson_weight_def lessThan8 facts8 power_divide)

lemma percent_home_c:
  "py_round2 (share (sum_home poisson_pmf (81 / 40) (24 / 25)) (sum_total poisson_pmf (81 / 40) (24 / 25)) * 100) = 6201 / 100"
  by (simp add: poisson_share_home weights_home_c weights_total_c py_round2_def round_half_even_def Let_def)

lemma scenario_percentages:
  "percentages (simulate poisson_pmf
      (stats_of \<lparr>attackHome = 1.2, defenseHome = 1.0, attackAway = 1.0, defenseAway = 1.0\<rparr>)
      (stats_of \<lparr>attackHome = 1.0, defenseHome = 1.0, attackAway = 0.8, defenseAway = 0.9\<rparr>)
      \<lparr>avg_home_goals = 1.5, avg_away_goals = 1.2\<rparr>) = Inr (52.81, 22.37, 24.82)"
proof -
  have "percentages (simulate poisson_pmf
      (stats_of \<lparr>attackHome = 1.2, defenseHome = 1.0, attackAway = 1.0, defenseAway = 1.0\<rparr>)
      (stats_of \<lparr>attackHome = 1.0, defenseHome = 1.0, attackAway = 0.8, defenseAway = 0.9\<rparr>)
      \<lparr>avg_home_goals = 1.5, avg_away_goals = 1.2\<rparr>) =
     Inr (py_round2 (share (sum_home poisson_pmf (81 / 50) (24 / 25))
                       (sum_total poisson_pmf (81 / 50) (24 / 25)) * 100),
          py_round2 (share (sum_away poisson_pmf (81 / 50) (24 / 25))
                       (sum_total poisson_pmf (81 / 50) (24 / 25)) * 100),
          py_round2 (share (sum_draw poisson_pmf (81 / 50) (24 / 25))
                       (sum_total poisson_pmf (81 / 50) (24 / 25)) * 100))"
    by (rule percentages_strength [OF has_strength_stats_of has_strength_stats_of]) simp_all
  then show ?thesis
    by (simp add: percent_home_a percent_away_a percent_draw_a)
qed

lemma scenario_swapped_percentages:
  "percentages (simulate poisson_pmf
      (stats_of \<lparr>attackHome = 1.0, defenseHome = 1.0, attackAway = 0.8, defenseAway = 0.9\<rparr>)
      (stats_of \<lparr>attackHome = 1.2, defenseHome = 1.0, attackAway = 1.0, defenseAway = 1.0\<rparr>)
      (swap_avgs \<lparr>avg_home_goals = 1.5, avg_away_goals = 1.2\<rparr>)) = Inr (30.37, 44.14, 25.49)"
proof -
  have "percentages (simulate poisson_pmf
      (stats_of \<lparr>attackHome = 1.0, defenseHome = 1.0, attackAway = 0.8, defenseAway = 0.9\<rparr>)
      (stats_of \<lparr>attackHome = 1.2, defenseHome = 1.0, attackAway = 1.0, defenseAway = 1.0\<rparr>)
      (swap_avgs \<lparr>avg_home_goals = 1.5, avg_away_goals = 1.2\<rparr>)) =
     Inr (py_round2 (share (sum_home poisson_pmf (6 / 5) (3 / 2))
                       (sum_total poisson_pmf (6 / 5) (3 / 2)) * 100),
          py_round2 (share (sum_away poisson_pmf (6 / 5) (3 / 2))
                       (sum_total poisson_pmf (6 / 5) (3 / 2)) * 100),
          py_round2 (share (sum_draw poisson_pmf (6 / 5) (3 / 2))
                       (sum_total poisson_pmf (6 / 5) (3 / 2)) * 100))"
    by (rule percentages_strength [OF has_strength_stats_of has_strength_stats_of])
      (simp_all add: swap_avgs_def)
  then show ?thesis
    by (simp add: percent_home_b percent_away_b percent_draw_b)
qed

lemma str_int_seasons: "str_int 2024 = ''2024''" "str_int 2023 = ''2023''"
  by code_simp+

section \<open>The properties\<close>

text \<open>
  C1.  For every pair of strength records and league averages the expected-goal rates are
  lambdaHome = home.attackHome * away.defenseAway * avgHomeGoals and
  lambdaAway = away.attackAway * home.defenseHome * avgAwayGoals; for the averages 1.5 and 1.2,
  the home record (1.2, 1.0, 1.0, 1.0) and the away record (1.0, 1.0, 0.8, 0.9) they are 1.62
  and 0.96.
\<close>

theorem expected_goal_rates:
  "(has_strength home hs \<and> has_strength away as \<longrightarrow>
      (\<exists>r. simulate pmf home away avgs = Inr r \<and>
           home_expected_goals r = attackHome hs * defenseAway as * avg_home_goals avgs \<and>
           away_expected_goals r = attackAway as * defenseHome hs * avg_away_goals avgs)) \<and>
   (\<exists>r. simulate pmf
          (stats_of \<lparr>attackHome = 1.2, defenseHome = 1.0, attackAway = 1.0, defenseAway = 1.0\<rparr>)
          (stats_of \<lparr>attackHome = 1.0, defenseHome = 1.0, attackAway = 0.8, defenseAway = 0.9\<rparr>)
          \<lparr>avg_home_goals = 1.5, avg_away_goals = 1.2\<rparr> = Inr r \<and>
        home_expected_goals r = 1.62 \<and> away_expected_goals r = 0.96)"
proof (intro conjI impI)
  assume "has_strength home hs \<and> has_strength away as"
  then have "has_strength home hs" "has_strength away as" by simp_all
  then show "\<exists>r. simulate pmf home away avgs = Inr r \<and>
           home_expected_goals r = attackHome hs * defenseAway as * avg_home_goals avgs \<and>
           away_expected_goals r = attackAway as * defenseHome hs * avg_away_goals avgs"
    by (simp add: simulate_strength)
next
  show "\<exists>r. simulate pmf
          (stats_of \<lparr>attackHome = 1.2, defenseHome = 1.0, attackAway = 1.0, defenseAway = 1.0\<rparr>)
          (stats_of \<lparr>attackHome = 1.0, defenseHome = 1.0, attackAway = 0.8, defenseAway = 0.9\<rparr>)
          \<lparr>avg_home_goals = 1.5, avg_away_goals = 1.2\<rparr> = Inr r \<and>
        home_expected_goals r = 1.62 \<and> away_expected_goals r = 0.96"
    by (simp add: simulate_strength [OF has_strength_stats_of has_strength_stats_of])
qed

theorem expected_goal_rates_witness:
  "has_strength (stats_of \<lparr>attackHome = 2, defenseHome = 1, attackAway = 1, defenseAway = 1\<rparr>)
     \<lparr>attackHome = 2, defenseHome = 1, attackAway = 1, defenseAway = 1\<rparr> \<and>
   has_strength zero_stats zero_strength \<and>
   (\<exists>r. simulate poisson_pmf
          (stats_of \<lparr>attackHome = 2, defenseHome = 1, attackAway = 1, defenseAway = 1\<rparr>)
          zero_stats \<lparr>avg_home_goals = 3, avg_away_goals = 1\<rparr> = Inr r \<and>
        home_expected_goals r = 0 \<and> away_expected_goals r = 0)"
proof -
  have h: "has_strength (stats_of \<lparr>attackHome = 2, defenseHome = 1, attackAway = 1, defenseAway = 1\<rparr>)
     \<lparr>attackHome = 2, defenseHome = 1, attackAway = 1, defenseAway = 1\<rparr>"
    by (rule has_strength_stats_of)
  have a: "has_strength zero_stats zero_strength"
    using has_strength_zero by (simp add: zero_strength_def)
  show ?thesis
    using h a expected_goal_rates [of
      "stats_of \<lparr>attackHome = 2, defenseHome = 1, attackAway = 1, defenseAway = 1\<rparr>"
      "\<lparr>attackHome = 2, defenseHome = 1, attackAway = 1, defenseAway = 1\<rparr>"
      zero_stats zero_strength poisson_pmf "\<lparr>avg_home_goals = 3, avg_away_goals = 1\<rparr>"]
    by (simp add: zero_strength_def)
qed

text \<open>
  C2.  When the total of the three accumulated sums is positive, each sum is divided by it
  and the three results add up to 1; otherwise the sums are left as they are and nothing is
  divided.  The percentages returned are these values times 100, rounded.  The simulation
  returns a prediction for every pair of stats dicts that carry the four coefficients,
  whatever numbers the probabilities are, and \<open>predict_match\<close> raises neither KeyError
  nor ZeroDivisionError for any collaborators.
\<close>

theorem normalisation_guard:
  "(0 < hw + aw + dr \<longrightarrow>
      (\<exists>hw' aw' dr'. normalise (hw, aw, dr) = Inr (hw', aw', dr') \<and>
         hw' = hw / (hw + aw + dr) \<and> aw' = aw / (hw + aw + dr) \<and> dr' = dr / (hw + aw + dr) \<and>
         hw' + aw' + dr' = 1)) \<and>
   (\<not> 0 < hw + aw + dr \<longrightarrow> normalise (hw, aw, dr) = Inr (hw, aw, dr)) \<and>
   (has_strength home hs \<and> has_strength away as \<longrightarrow>
      (\<exists>r hw' aw' dr'. simulate pmf home away avgs = Inr r \<and>
         outcome_probs pmf (home_expected_goals r) (away_expected_goals r) = Inr (hw', aw', dr') \<and>
         home_team_win_probability r = py_round2 (hw' * 100) \<and>
         away_team_win_probability r = py_round2 (aw' * 100) \<and>
         draw_probability r = py_round2 (dr' * 100))) \<and>
   (\<exists>res. predict_match pmf e home_team_id away_team_id league_id = Inr res)"
proof (intro conjI impI)
  assume "0 < hw + aw + dr"
  then show "\<exists>hw' aw' dr'. normalise (hw, aw, dr) = Inr (hw', aw', dr') \<and>
         hw' = hw / (hw + aw + dr) \<and> aw' = aw / (hw + aw + dr) \<and> dr' = dr / (hw + aw + dr) \<and>
         hw' + aw' + dr' = 1"
    by (simp add: normalise_eq normalise_sum)
next
  assume "\<not> 0 < hw + aw + dr"
  then show "normalise (hw, aw, dr) = Inr (hw, aw, dr)"
    by (simp add: normalise_eq)
next
  assume "has_strength home hs \<and> has_strength away as"
  then have "has_strength home hs" "has_strength away as" by simp_all
  then show "\<exists>r hw' aw' dr'. simulate pmf home away avgs = Inr r \<and>
         outcome_probs pmf (home_expected_goals r) (away_expected_goals r) = Inr (hw', aw', dr') \<and>
         home_team_win_probability r = py_round2 (hw' * 100) \<and>
         away_team_win_probability r = py_round2 (aw' * 100) \<and>
         draw_probability r = py_round2 (dr' * 100)"
    by (simp add: simulate_strength outcome_probs_eq)
next
  show "\<exists>res. predict_match pmf e home_team_id away_team_id league_id = Inr res"
    by (rule predict_match_total)
qed

theorem normalisation_guard_witness:
  "(0::real) < 1 + 2 + 1 \<and>
   normalise (1, 2, 1) = Inr (1 / 4, 1 / 2, 1 / 4) \<and>
   \<not> (0::real) < 0 + 0 + 0 \<and>
   normalise (0, 0, 0) = Inr (0, 0, 0) \<and>
   has_strength zero_stats zero_strength \<and>
   (\<exists>r. simulate (\<lambda>k mu. 0) zero_stats zero_stats \<lparr>avg_home_goals = 1.5, avg_away_goals = 1.2\<rparr> = Inr r \<and>
        outcome_probs (\<lambda>k mu. 0) (home_expected_goals r) (away_expected_goals r) = Inr (0, 0, 0) \<and>
        home_team_win_probability r = 0 \<and> away_team_win_probability r = 0 \<and> draw_probability r = 0)"
proof -
  note g1 = normalisation_guard [where hw = 1 and aw = 2 and dr = 1]
  note g0 = normalisation_guard [where hw = 0 and aw = 0 and dr = 0 and home = zero_stats
      and hs = zero_strength and away = zero_stats and as = zero_strength and pmf = "\<lambda>k mu. 0"
      and avgs = "\<lparr>avg_home_goals = 1.5, avg_away_goals = 1.2\<rparr>"]
  have p1: "(0::real) < 1 + 2 + 1" by simp
  have p0: "\<not> (0::real) < 0 + 0 + 0" by simp
  have z: "has_strength zero_stats zero_strength"
    using has_strength_zero by (simp add: zero_strength_def)
  have "\<exists>hw' aw' dr'. normalise (1, 2, 1) = Inr (hw', aw', dr') \<and>
         hw' = 1 / (1 + 2 + 1) \<and> aw' = 2 / (1 + 2 + 1) \<and> dr' = 1 / (1 + 2 + 1) \<and>
         hw' + aw' + dr' = 1"
    using g1 p1 by blast
  then have "normalise (1, 2, 1) = Inr (1 / (1 + 2 + 1), 2 / (1 + 2 + 1), 1 / (1 + 2 + 1))"
    by blast
  then have n1: "normalise (1, 2, 1) = Inr (1 / 4, 1 / 2, 1 / 4)"
    by simp
  have n0: "normalise (0, 0, 0) = Inr (0, 0, 0)"
    using g0 p0 by blast
  have s: "sum_home (\<lambda>k mu. 0) lh la = 0" "sum_away (\<lambda>k mu. 0) lh la = 0"
    "sum_draw (\<lambda>k mu. 0) lh la = 0" for lh la
    by (simp_all add: sum_home_def sum_away_def sum_draw_def cong: if_cong)
  have o: "outcome_probs (\<lambda>k mu. 0) lh la = Inr (0, 0, 0)" for lh la
    by (simp add: outcome_probs_eq sum_total_def s share_def)
  have "\<exists>r hw' aw' dr'. simulate (\<lambda>k mu. 0) zero_stats zero_stats
          \<lparr>avg_home_goals = 1.5, avg_away_goals = 1.2\<rparr> = Inr r \<and>
         outcome_probs (\<lambda>k mu. 0) (home_expected_goals r) (away_expected_goals r) = Inr (hw', aw', dr') \<and>
         home_team_win_probability r = py_round2 (hw' * 100) \<and>
         away_team_win_probability r = py_round2 (aw' * 100) \<and>
         draw_probability r = py_round2 (dr' * 100)"
    using g0 z by blast
  then obtain r where r: "simulate (\<lambda>k mu. 0) zero_stats zero_stats
          \<lparr>avg_home_goals = 1.5, avg_away_goals = 1.2\<rparr> = Inr r"
      "home_team_win_probability r = 0" "away_team_win_probability r = 0" "draw_probability r = 0"
    by (auto simp: o py_round2_0)
  show ?thesis
    using p1 n1 p0 n0 z r o by blast
qed



text \<open>
  C4, as stated, fails.  In the scenario of the specification the prediction is
  52.81, 22.37, 24.82 (home, away, draw); with the two records and the two averages
  exchanged it is 30.37, 44.14, 25.49, not 22.37, 52.81, 24.82.  The exchanged call reads
  the away team's attackHome and the home team's defenseAway, which the first call never
  reads.
\<close>

theorem swap_counterexample:
  "percentages (simulate poisson_pmf
      (stats_of \<lparr>attackHome = 1.2, defenseHome = 1.0, attackAway = 1.0, defenseAway = 1.0\<rparr>)
      (stats_of \<lparr>attackHome = 1.0, defenseHome = 1.0, attackAway = 0.8, defenseAway = 0.9\<rparr>)
      \<lparr>avg_home_goals = 1.5, avg_away_goals = 1.2\<rparr>) = Inr (52.81, 22.37, 24.82) \<and>
   percentages (simulate poisson_pmf
      (stats_of \<lparr>attackHome = 1.0, defenseHome = 1.0, attackAway = 0.8, defenseAway = 0.9\<rparr>)
      (stats_of \<lparr>attackHome = 1.2, defenseHome = 1.0, attackAway = 1.0, defenseAway = 1.0\<rparr>)
      (swap_avgs \<lparr>avg_home_goals = 1.5, avg_away_goals = 1.2\<rparr>)) = Inr (30.37, 44.14, 25.49) \<and>
   (30.37::real) \<noteq> 22.37 \<and> (44.14::real) \<noteq> 52.81 \<and> (25.49::real) \<noteq> 24.82"
  using scenario_percentages scenario_swapped_percentages by simp

text \<open>
  C4, amended.  Exchanging the two records and the two averages exchanges the home-win and
  away-win percentages and keeps the draw percentage whenever it exchanges the two rates,
  as it does when each team has the same coefficients at home and away.
\<close>

theorem swap_symmetry:
  assumes "has_strength home hs" and "has_strength away as"
    and "attackHome as * defenseAway hs * avg_away_goals avgs
           = attackAway as * defenseHome hs * avg_away_goals avgs"
    and "attackAway hs * defenseHome as * avg_home_goals avgs
           = attackHome hs * defenseAway as * avg_home_goals avgs"
  shows "\<exists>hw aw dr. percentages (simulate pmf home away avgs) = Inr (hw, aw, dr) \<and>
           percentages (simulate pmf away home (swap_avgs avgs)) = Inr (aw, hw, dr)"
proof -
  define lh where "lh = attackHome hs * defenseAway as * avg_home_goals avgs"
  define la where "la = attackAway as * defenseHome hs * avg_away_goals avgs"
  have orig: "percentages (simulate pmf home away avgs) =
     Inr (py_round2 (share (sum_home pmf lh la) (sum_total pmf lh la) * 100),
          py_round2 (share (sum_away pmf lh la) (sum_total pmf lh la) * 100),
          py_round2 (share (sum_draw pmf lh la) (sum_total pmf lh la) * 100))"
    by (rule percentages_strength [OF assms(1,2) lh_def la_def])
  have swapped: "percentages (simulate pmf away home (swap_avgs avgs)) =
     Inr (py_round2 (share (sum_home pmf la lh) (sum_total pmf la lh) * 100),
          py_round2 (share (sum_away pmf la lh) (sum_total pmf la lh) * 100),
          py_round2 (share (sum_draw pmf la lh) (sum_total pmf la lh) * 100))"
    by (rule percentages_strength [OF assms(2,1)])
      (simp_all add: swap_avgs_def lh_def la_def assms(3,4))
  have "percentages (simulate pmf away home (swap_avgs avgs)) =
     Inr (py_round2 (share (sum_away pmf lh la) (sum_total pmf lh la) * 100),
          py_round2 (share (sum_home pmf lh la) (sum_total pmf lh la) * 100),
          py_round2 (share (sum_draw pmf lh la) (sum_total pmf lh la) * 100))"
    unfolding swapped sum_home_swap [of pmf la lh] sum_away_swap [of pmf la lh]
      sum_draw_swap [of pmf la lh] sum_total_swap [of pmf la lh] ..
  with orig show ?thesis by blast
qed

theorem swap_symmetry_witness:
  "has_strength (stats_of \<lparr>attackHome = 1.2, defenseHome = 0.9, attackAway = 1.2, defenseAway = 0.9\<rparr>)
     \<lparr>attackHome = 1.2, defenseHome = 0.9, attackAway = 1.2, defenseAway = 0.9\<rparr> \<and>
   has_strength (stats_of \<lparr>attackHome = 0.8, defenseHome = 1.1, attackAway = 0.8, defenseAway = 1.1\<rparr>)
     \<lparr>attackHome = 0.8, defenseHome = 1.1, attackAway = 0.8, defenseAway = 1.1\<rparr> \<and>
   (0.8 :: real) * 0.9 * 1.2 = 0.8 * 0.9 * 1.2 \<and> (1.2 :: real) * 1.1 * 1.5 = 1.2 * 1.1 * 1.5 \<and>
   (\<exists>hw aw dr.
      percentages (simulate poisson_pmf
        (stats_of \<lparr>attackHome = 1.2, defenseHome = 0.9, attackAway = 1.2, defenseAway = 0.9\<rparr>)
        (stats_of \<lparr>attackHome = 0.8, defenseHome = 1.1, attackAway = 0.8, defenseAway = 1.1\<rparr>)
        \<lparr>avg_home_goals = 1.5, avg_away_goals = 1.2\<rparr>) = Inr (hw, aw, dr) \<and>
      percentages (simulate poisson_pmf
        (stats_of \<lparr>attackHome = 0.8, defenseHome = 1.1, attackAway = 0.8, defenseAway = 1.1\<rparr>)
        (stats_of \<lparr>attackHome = 1.2, defenseHome = 0.9, attackAway = 1.2, defenseAway = 0.9\<rparr>)
        \<lparr>avg_home_goals = 1.2, avg_away_goals = 1.5\<rparr>) = Inr (aw, hw, dr))"
proof -
  have "\<exists>hw aw dr.
      percentages (simulate poisson_pmf
        (stats_of \<lparr>attackHome = 1.2, defenseHome = 0.9, attackAway = 1.2, defenseAway = 0.9\<rparr>)
        (stats_of \<lparr>attackHome = 0.8, defenseHome = 1.1, attackAway = 0.8, defenseAway = 1.1\<rparr>)
        \<lparr>avg_home_goals = 1.5, avg_away_goals = 1.2\<rparr>) = Inr (hw, aw, dr) \<and>
      percentages (simulate poisson_pmf
        (stats_of \<lparr>attackHome = 0.8, defenseHome = 1.1, attackAway = 0.8, defenseAway = 1.1\<rparr>)
        (stats_of \<lparr>attackHome = 1.2, defenseHome = 0.9, attackAway = 1.2, defenseAway = 0.9\<rparr>)
        (swap_avgs \<lparr>avg_home_goals = 1.5, avg_away_goals = 1.2\<rparr>)) = Inr (aw, hw, dr)"
    by (rule swap_symmetry [OF has_strength_stats_of has_strength_stats_of]) simp_all
  then show ?thesis
    by (simp add: has_strength_stats_of swap_avgs_def)
qed

text \<open>
  C5, as stated, fails.  Against the all-zero away record the home rate is 0 for
  attackHome = 1 and still 0 for attackHome = 2.
\<close>

theorem attack_counterexample:
  "expected_goals
      (stats_of \<lparr>attackHome = 1, defenseHome = 1, attackAway = 1, defenseAway = 1\<rparr>) zero_stats
      \<lparr>avg_home_goals = 1.5, avg_away_goals = 1.2\<rparr> = Inr (0, 0) \<and>
   expected_goals
      (stats_of \<lparr>attackHome = 2, defenseHome = 1, attackAway = 1, defenseAway = 1\<rparr>) zero_stats
      \<lparr>avg_home_goals = 1.5, avg_away_goals = 1.2\<rparr> = Inr (0, 0)"
  using expected_goals_strength [OF has_strength_stats_of has_strength_zero]
  by simp

text \<open>
  C5, amended.  Raising attackHome from a to x, all else fixed, adds
  (x - a) * away.defenseAway * avgHomeGoals to lambdaHome and leaves lambdaAway alone: for
  coefficients and averages that are not negative lambdaHome does not decrease, and it
  increases strictly when a < x and away.defenseAway * avgHomeGoals is positive.  The
  home-win percentage does not decrease as long as the two rates after the increase add up
  to at most 700, the range where the Poisson probabilities stand for the doubles of the
  library; nothing is said beyond it, where these underflow and the percentage falls to 0.
\<close>

theorem attack_monotone:
  assumes "has_strength home hs" and "has_strength home' (hs\<lparr>attackHome := x\<rparr>)"
    and "has_strength away as"
    and "nonneg_strength hs" and "nonneg_strength as" and "nonneg_avgs avgs"
    and "attackHome hs \<le> x"
  shows "\<exists>r r'. simulate poisson_pmf home away avgs = Inr r \<and>
           simulate poisson_pmf home' away avgs = Inr r' \<and>
           home_expected_goals r' =
             home_expected_goals r + (x - attackHome hs) * (defenseAway as * avg_home_goals avgs) \<and>
           away_expected_goals r' = away_expected_goals r \<and>
           home_expected_goals r \<le> home_expected_goals r' \<and>
           (attackHome hs < x \<and> 0 < defenseAway as * avg_home_goals avgs \<longrightarrow>
              home_expected_goals r < home_expected_goals r') \<and>
           (home_expected_goals r' + away_expected_goals r' \<le> 700 \<longrightarrow>
              home_team_win_probability r \<le> home_team_win_probability r')"
proof -
  define k where "k = defenseAway as * avg_home_goals avgs"
  define lh where "lh = attackHome hs * defenseAway as * avg_home_goals avgs"
  define lh' where "lh' = x * defenseAway as * avg_home_goals avgs"
  define la where "la = attackAway as * defenseHome hs * avg_away_goals avgs"
  have k0: "0 \<le> k"
    using assms(5,6) by (simp add: k_def nonneg_strength_def nonneg_avgs_def)
  have lh_k: "lh = attackHome hs * k" and lh'_k: "lh' = x * k"
    by (simp_all add: lh_def lh'_def k_def)
  have lh0: "0 \<le> lh" and la0: "0 \<le> la"
    unfolding lh_def la_def by (rule rates_nonneg [OF assms(4,5,6)])+
  have le: "lh \<le> lh'"
    unfolding lh_k lh'_k using assms(7) k0 by (rule mult_right_mono)
  have lh'0: "0 \<le> lh'" using lh0 le by simp
  have diff: "lh' = lh + (x - attackHome hs) * k"
    by (simp add: lh_k lh'_k algebra_simps)
  have strict: "attackHome hs < x \<and> 0 < k \<longrightarrow> lh < lh'"
    by (simp add: lh_k lh'_k)
  have "share (sum_home poisson_pmf lh la) (sum_total poisson_pmf lh la)
      \<le> share (sum_home poisson_pmf lh' la) (sum_total poisson_pmf lh' la)"
    unfolding poisson_share_home [OF lh0 la0] poisson_share_home [OF lh'0 la0]
    using lh0 le la0 by (rule home_share_mono)
  then have "share (sum_home poisson_pmf lh la) (sum_total poisson_pmf lh la) * 100
      \<le> share (sum_home poisson_pmf lh' la) (sum_total poisson_pmf lh' la) * 100"
    by simp
  then have mono: "py_round2 (share (sum_home poisson_pmf lh la) (sum_total poisson_pmf lh la) * 100)
      \<le> py_round2 (share (sum_home poisson_pmf lh' la) (sum_total poisson_pmf lh' la) * 100)"
    by (rule py_round2_mono)
  obtain r where r: "simulate poisson_pmf home away avgs = Inr r"
    "home_expected_goals r = lh" "away_expected_goals r = la"
    "home_team_win_probability r =
       py_round2 (share (sum_home poisson_pmf lh la) (sum_total poisson_pmf lh la) * 100)"
    unfolding lh_def la_def by (simp add: simulate_strength [OF assms(1,3)])
  obtain r' where r': "simulate poisson_pmf home' away avgs = Inr r'"
    "home_expected_goals r' = lh'" "away_expected_goals r' = la"
    "home_team_win_probability r' =
       py_round2 (share (sum_home poisson_pmf lh' la) (sum_total poisson_pmf lh' la) * 100)"
    unfolding lh'_def la_def by (simp add: simulate_strength [OF assms(2,3)])
  show ?thesis
    using r r' le diff strict mono unfolding k_def
    by (intro exI [of _ r] exI [of _ r']) simp
qed

theorem attack_monotone_witness:
  "has_strength (stats_of \<lparr>attackHome = 1.2, defenseHome = 1.0, attackAway = 1.0, defenseAway = 1.0\<rparr>)
     \<lparr>attackHome = 1.2, defenseHome = 1.0, attackAway = 1.0, defenseAway = 1.0\<rparr> \<and>
   has_strength (stats_of \<lparr>attackHome = 1.5, defenseHome = 1.0, attackAway = 1.0, defenseAway = 1.0\<rparr>)
     (\<lparr>attackHome = 1.2, defenseHome = 1.0, attackAway = 1.0, defenseAway = 1.0\<rparr>
        \<lparr>attackHome := 1.5\<rparr>) \<and>
   has_strength (stats_of \<lparr>attackHome = 1.0, defenseHome = 1.0, attackAway = 0.8, defenseAway = 0.9\<rparr>)
     \<lparr>attackHome = 1.0, defenseHome = 1.0, attackAway = 0.8, defenseAway = 0.9\<rparr> \<and>
   nonneg_strength \<lparr>attackHome = 1.2, defenseHome = 1.0, attackAway = 1.0, defenseAway = 1.0\<rparr> \<and>
   nonneg_strength \<lparr>attackHome = 1.0, defenseHome = 1.0, attackAway = 0.8, defenseAway = 0.9\<rparr> \<and>
   nonneg_avgs \<lparr>avg_home_goals = 1.5, avg_away_goals = 1.2\<rparr> \<and>
   (1.2 :: real) \<le> 1.5 \<and> (1.2 :: real) < 1.5 \<and> (0 :: real) < 0.9 * 1.5 \<and>
   (\<exists>r r'. simulate poisson_pmf
          (stats_of \<lparr>attackHome = 1.2, defenseHome = 1.0, attackAway = 1.0, defenseAway = 1.0\<rparr>)
          (stats_of \<lparr>attackHome = 1.0, defenseHome = 1.0, attackAway = 0.8, defenseAway = 0.9\<rparr>)
          \<lparr>avg_home_goals = 1.5, avg_away_goals = 1.2\<rparr> = Inr r \<and>
        simulate poisson_pmf
          (stats_of \<lparr>attackHome = 1.5, defenseHome = 1.0, attackAway = 1.0, defenseAway = 1.0\<rparr>)
          (stats_of \<lparr>attackHome = 1.0, defenseHome = 1.0, attackAway = 0.8, defenseAway = 0.9\<rparr>)
          \<lparr>avg_home_goals = 1.5, avg_away_goals = 1.2\<rparr> = Inr r' \<and>
        home_expected_goals r = 1.62 \<and> home_expected_goals r' = 2.025 \<and>
        away_expected_goals r' = 0.96 \<and>
        home_expected_goals r < home_expected_goals r' \<and>
        home_expected_goals r' + away_expected_goals r' \<le> 700 \<and>
        home_team_win_probability r = 52.81 \<and> home_team_win_probability r' = 62.01 \<and>
        home_team_win_probability r \<le> home_team_win_probability r')"
proof -
  let ?hs = "\<lparr>attackHome = 1.2, defenseHome = 1.0, attackAway = 1.0, defenseAway = 1.0 :: real\<rparr>"
  let ?hs' = "\<lparr>attackHome = 1.5, defenseHome = 1.0, attackAway = 1.0, defenseAway = 1.0 :: real\<rparr>"
  let ?as = "\<lparr>attackHome = 1.0, defenseHome = 1.0, attackAway = 0.8, defenseAway = 0.9 :: real\<rparr>"
  let ?avgs = "\<lparr>avg_home_goals = 1.5, avg_away_goals = 1.2\<rparr>"
  have v: "nonneg_strength ?hs" "nonneg_strength ?as" "nonneg_avgs ?avgs"
    by (simp_all add: nonneg_strength_def nonneg_avgs_def)
  have h: "has_strength (stats_of ?hs) ?hs" by (rule has_strength_stats_of)
  have a: "has_strength (stats_of ?as) ?as" by (rule has_strength_stats_of)
  have hs': "has_strength (stats_of ?hs') ?hs'" by (rule has_strength_stats_of)
  have h': "has_strength (stats_of ?hs') (?hs\<lparr>attackHome := 1.5\<rparr>)"
    using hs' by simp
  have le: "attackHome ?hs \<le> 1.5" by simp
  have lt: "attackHome ?hs < 1.5 \<and> 0 < defenseAway ?as * avg_home_goals ?avgs" by simp
  obtain r r' where sim: "simulate poisson_pmf (stats_of ?hs) (stats_of ?as) ?avgs = Inr r"
    and sim': "simulate poisson_pmf (stats_of ?hs') (stats_of ?as) ?avgs = Inr r'"
    and strict: "attackHome ?hs < 1.5 \<and> 0 < defenseAway ?as * avg_home_goals ?avgs \<longrightarrow>
              home_expected_goals r < home_expected_goals r'"
    and mono: "home_expected_goals r' + away_expected_goals r' \<le> 700 \<longrightarrow>
              home_team_win_probability r \<le> home_team_win_probability r'"
    using attack_monotone [OF h h' a v le] by blast
  have rates: "home_expected_goals r = 1.62" "home_expected_goals r' = 2.025"
    "away_expected_goals r' = 0.96"
    using sim sim' unfolding simulate_strength [OF h a] simulate_strength [OF hs' a] by auto
  have p: "home_team_win_probability r = 52.81"
    using scenario_percentages unfolding sim percentages_def by simp
  have "percentages (simulate poisson_pmf (stats_of ?hs') (stats_of ?as) ?avgs) =
     Inr (py_round2 (share (sum_home poisson_pmf (81 / 40) (24 / 25))
                       (sum_total poisson_pmf (81 / 40) (24 / 25)) * 100),
          py_round2 (share (sum_away poisson_pmf (81 / 40) (24 / 25))
                       (sum_total poisson_pmf (81 / 40) (24 / 25)) * 100),
          py_round2 (share (sum_draw poisson_pmf (81 / 40) (24 / 25))
                       (sum_total poisson_pmf (81 / 40) (24 / 25)) * 100))"
    by (rule percentages_strength [OF hs' a]) simp_all
  then have p': "home_team_win_probability r' = 62.01"
    unfolding sim' percentages_def by (simp add: percent_home_c)
  have bound: "home_expected_goals r' + away_expected_goals r' \<le> 700"
    unfolding rates by simp
  have "home_expected_goals r < home_expected_goals r'"
    using strict lt by blast
  moreover have "home_team_win_probability r \<le> home_team_win_probability r'"
    using mono bound by blast
  ultimately have "\<exists>r r'. simulate poisson_pmf (stats_of ?hs) (stats_of ?as) ?avgs = Inr r \<and>
        simulate poisson_pmf (stats_of ?hs') (stats_of ?as) ?avgs = Inr r' \<and>
        home_expected_goals r = 1.62 \<and> home_expected_goals r' = 2.025 \<and>
        away_expected_goals r' = 0.96 \<and>
        home_expected_goals r < home_expected_goals r' \<and>
        home_expected_goals r' + away_expected_goals r' \<le> 700 \<and>
        home_team_win_probability r = 52.81 \<and> home_team_win_probability r' = 62.01 \<and>
        home_team_win_probability r \<le> home_team_win_probability r'"
    using sim sim' rates bound p p' by blast
  with h h' a v show ?thesis
    by simp
qed

text \<open>
  C6.  The dict of scoreline probabilities holds the 64 entries in the order of the nested
  loops, and the top-five list is the first five of them after a sort that is descending by
  probability, a permutation, and stable: the entries of any one probability keep the order
  of the enumeration.
\<close>

theorem top_five_order:
  assumes "has_strength home hs" and "has_strength away as"
  shows "\<exists>r es. simulate pmf home away avgs = Inr r \<and>
           es = score_entries pmf (home_expected_goals r) (away_expected_goals r) \<and>
           score_probabilities (score_loop pmf (home_expected_goals r) (away_expected_goals r)) = es \<and>
           length es = 64 \<and>
           top_five_scores r =
             map (\<lambda>(score, prob). (score, py_round2 (prob * 100))) (take 5 (sorted_desc es)) \<and>
           mset (sorted_desc es) = mset es \<and>
           sorted_wrt (\<lambda>p q. snd q \<le> snd p) (sorted_desc es) \<and>
           (\<forall>v. filter (\<lambda>e. snd e = v) (sorted_desc es) = filter (\<lambda>e. snd e = v) es)"
proof -
  define lh where "lh = attackHome hs * defenseAway as * avg_home_goals avgs"
  define la where "la = attackAway as * defenseHome hs * avg_away_goals avgs"
  obtain r where r: "simulate pmf home away avgs = Inr r"
    "home_expected_goals r = lh" "away_expected_goals r = la"
    "top_five_scores r = top_five (score_entries pmf lh la)"
    unfolding lh_def la_def by (simp add: simulate_strength [OF assms])
  have "score_probabilities (score_loop pmf lh la) = score_entries pmf lh la"
    by (simp add: score_loop_sums)
  then show ?thesis
    using r
    by (intro exI [of _ r] exI [of _ "score_entries pmf lh la"])
      (simp add: top_five_def length_score_entries mset_sorted_desc sorted_sorted_desc
        sorted_desc_stable)
qed

theorem top_five_order_witness:
  "has_strength zero_stats zero_strength \<and>
   (\<exists>r. simulate poisson_pmf zero_stats zero_stats \<lparr>avg_home_goals = 1.5, avg_away_goals = 1.2\<rparr> = Inr r \<and>
        top_five_scores r =
          map (\<lambda>(score, prob). (score, py_round2 (prob * 100)))
            (take 5 (sorted_desc (score_entries poisson_pmf 0 0))) \<and>
        take 5 (sorted_desc (score_entries poisson_pmf 0 0)) =
          [(''0-0'', 1), (''0-1'', 0), (''0-2'', 0), (''0-3'', 0), (''0-4'', 0)])"
proof -
  have z: "has_strength zero_stats zero_strength"
    using has_strength_zero by (simp add: zero_strength_def)
  have eg: "expected_goals zero_stats zero_stats \<lparr>avg_home_goals = 1.5, avg_away_goals = 1.2\<rparr> = Inr (0, 0)"
    by (simp add: expected_goals_strength [OF z z] zero_strength_def)
  obtain r where r: "simulate poisson_pmf zero_stats zero_stats
        \<lparr>avg_home_goals = 1.5, avg_away_goals = 1.2\<rparr> = Inr r"
    and t: "top_five_scores r =
          map (\<lambda>(score, prob). (score, py_round2 (prob * 100)))
            (take 5 (sorted_desc (score_entries poisson_pmf (home_expected_goals r)
               (away_expected_goals r))))"
    using top_five_order [OF z z, of poisson_pmf "\<lparr>avg_home_goals = 1.5, avg_away_goals = 1.2\<rparr>"]
    by blast
  have "home_expected_goals r = 0" "away_expected_goals r = 0"
    using r unfolding zero_rates_simulate [OF eg] by auto
  with t have "top_five_scores r =
          map (\<lambda>(score, prob). (score, py_round2 (prob * 100)))
            (take 5 (sorted_desc (score_entries poisson_pmf 0 0)))"
    by simp
  with r z zero_entries_sorted show ?thesis
    by blast
qed

text \<open>
  C7.  When all four coefficients of both records are 0, both rates are 0, the scoreline
  0-0 has probability 1 and heads the top-five list with 100.
\<close>

theorem both_zero_records:
  assumes "has_strength home zero_strength" and "has_strength away zero_strength"
  shows "expected_goals home away avgs = Inr (0, 0) \<and>
         dict_get (score_probabilities (score_loop poisson_pmf 0 0)) ''0-0'' = Inr 1 \<and>
         simulate poisson_pmf home away avgs =
           Inr \<lparr>home_team_win_probability = 0, away_team_win_probability = 0,
                draw_probability = 100, predicted_goals_home = 0, predicted_goals_away = 0,
                top_five_scores =
                  [(''0-0'', 100), (''0-1'', 0), (''0-2'', 0), (''0-3'', 0), (''0-4'', 0)],
                league_averages = avgs, home_team_stats = home, away_team_stats = away,
                home_expected_goals = 0, away_expected_goals = 0\<rparr>"
proof -
  have eg: "expected_goals home away avgs = Inr (0, 0)"
    by (simp add: expected_goals_strength [OF assms] zero_strength_def)
  show ?thesis
    using eg zero_cell zero_rates_simulate [OF eg] by simp
qed

theorem both_zero_records_witness:
  "has_strength zero_stats zero_strength \<and>
   expected_goals zero_stats zero_stats \<lparr>avg_home_goals = 1.5, avg_away_goals = 1.2\<rparr> = Inr (0, 0) \<and>
   simulate poisson_pmf zero_stats zero_stats \<lparr>avg_home_goals = 1.5, avg_away_goals = 1.2\<rparr> =
     Inr \<lparr>home_team_win_probability = 0, away_team_win_probability = 0,
          draw_probability = 100, predicted_goals_home = 0, predicted_goals_away = 0,
          top_five_scores =
            [(''0-0'', 100), (''0-1'', 0), (''0-2'', 0), (''0-3'', 0), (''0-4'', 0)],
          league_averages = \<lparr>avg_home_goals = 1.5, avg_away_goals = 1.2\<rparr>,
          home_team_stats = zero_stats, away_team_stats = zero_stats,
          home_expected_goals = 0, away_expected_goals = 0\<rparr>"
proof -
  have z: "has_strength zero_stats zero_strength"
    using has_strength_zero by (simp add: zero_strength_def)
  show ?thesis
    using z both_zero_records [OF z z, of "\<lparr>avg_home_goals = 1.5, avg_away_goals = 1.2\<rparr>"]
    by blast
qed

text \<open>
  C8.  The season resolver returns the previous year for a date in January to July and the
  year itself for a date in August to December; July 31 of a year gives the year before,
  August 1 the year itself.
\<close>

theorem season_boundary:
  "(1 \<le> month d \<and> month d \<le> 7 \<longrightarrow> get_current_season d = year d - 1) \<and>
   (8 \<le> month d \<and> month d \<le> 12 \<longrightarrow> get_current_season d = year d) \<and>
   get_current_season \<lparr>year = y, month = 7, day = 31\<rparr> = y - 1 \<and>
   get_current_season \<lparr>year = y, month = 8, day = 1\<rparr> = y"
  by (simp add: get_current_season_def)

theorem season_boundary_witness:
  "get_current_season \<lparr>year = 2025, month = 3, day = 10\<rparr> = 2024 \<and>
   get_current_season \<lparr>year = 2025, month = 8, day = 15\<rparr> = 2025 \<and>
   get_current_season \<lparr>year = 2025, month = 7, day = 31\<rparr> = 2024 \<and>
   get_current_season \<lparr>year = 2025, month = 8, day = 1\<rparr> = 2025"
  using season_boundary [of "\<lparr>year = 2025, month = 3, day = 10\<rparr>" 2025]
    season_boundary [of "\<lparr>year = 2025, month = 8, day = 15\<rparr>" 2025]
  by simp

text \<open>
  C9.  When both averages of the resolved season are 0, the previous season is fetched: if
  it has no matches the call returns the error dict that names both seasons, and otherwise
  the prediction is made from the previous season's matches and averages.
\<close>

theorem season_fallback:
  assumes "avg_home_goals (calculate_league_averages e
             (or_empty (retrieve_matches_for_team e league_id (get_current_season (now e))))) = 0"
    and "avg_away_goals (calculate_league_averages e
             (or_empty (retrieve_matches_for_team e league_id (get_current_season (now e))))) = 0"
  shows "(or_empty (retrieve_matches_for_team e league_id (get_current_season (now e) - 1)) = [] \<longrightarrow>
            predict_match pmf e home_team_id away_team_id league_id =
              Inr (Error_dict (''No match data found for the league in season ''
                     @ str_int (get_current_season (now e)) @ '' or ''
                     @ str_int (get_current_season (now e) - 1) @ '' to calculate averages.''))) \<and>
         (or_empty (retrieve_matches_for_team e league_id (get_current_season (now e) - 1)) \<noteq> [] \<longrightarrow>
            predict_match pmf e home_team_id away_team_id league_id =
              predict_from pmf e home_team_id away_team_id league_id
                (calculate_league_averages e
                   (or_empty (retrieve_matches_for_team e league_id (get_current_season (now e) - 1))))
                (or_empty (retrieve_matches_for_team e league_id (get_current_season (now e) - 1)))
                (get_current_season (now e) - 1))"
  using assms by (simp add: predict_match_def Let_def)

theorem season_fallback_witness:
  "predict_match poisson_pmf
      \<lparr>now = \<lparr>year = 2025, month = 7, day = 15\<rparr>,
       retrieve_matches_for_team = (\<lambda>league season. None),
       calculate_league_averages = (\<lambda>ms :: nat list. \<lparr>avg_home_goals = 0, avg_away_goals = 0\<rparr>),
       filter_matches_by_team_id = (\<lambda>team ms. ms),
       calculate_final_team_stats = (\<lambda>season league team avgs ms. Raised)\<rparr>
      57 66 2021 =
    Inr (Error_dict ''No match data found for the league in season 2024 or 2023 to calculate averages.'') \<and>
   predict_match poisson_pmf
      \<lparr>now = \<lparr>year = 2025, month = 7, day = 15\<rparr>,
       retrieve_matches_for_team = (\<lambda>league season. if season = 2023 then Some [1] else None),
       calculate_league_averages =
         (\<lambda>ms :: nat list. if ms = [] then \<lparr>avg_home_goals = 0, avg_away_goals = 0\<rparr>
                       else \<lparr>avg_home_goals = 1.5, avg_away_goals = 1.2\<rparr>),
       filter_matches_by_team_id = (\<lambda>team ms. ms),
       calculate_final_team_stats = (\<lambda>season league team avgs ms. Raised)\<rparr>
      57 66 2021 =
    predict_from poisson_pmf
      \<lparr>now = \<lparr>year = 2025, month = 7, day = 15\<rparr>,
       retrieve_matches_for_team = (\<lambda>league season. if season = 2023 then Some [1] else None),
       calculate_league_averages =
         (\<lambda>ms :: nat list. if ms = [] then \<lparr>avg_home_goals = 0, avg_away_goals = 0\<rparr>
                       else \<lparr>avg_home_goals = 1.5, avg_away_goals = 1.2\<rparr>),
       filter_matches_by_team_id = (\<lambda>team ms. ms),
       calculate_final_team_stats = (\<lambda>season league team avgs ms. Raised)\<rparr>
      57 66 2021 \<lparr>avg_home_goals = 1.5, avg_away_goals = 1.2\<rparr> [1] 2023"
proof -
  let ?e0 = "\<lparr>now = \<lparr>year = 2025, month = 7, day = 15\<rparr>,
       retrieve_matches_for_team = (\<lambda>league season. None),
       calculate_league_averages = (\<lambda>ms :: nat list. \<lparr>avg_home_goals = 0, avg_away_goals = 0\<rparr>),
       filter_matches_by_team_id = (\<lambda>team ms. ms),
       calculate_final_team_stats = (\<lambda>season league team avgs ms. Raised)\<rparr>"
  let ?e1 = "\<lparr>now = \<lparr>year = 2025, month = 7, day = 15\<rparr>,
       retrieve_matches_for_team = (\<lambda>league season. if season = 2023 then Some [1] else None),
       calculate_league_averages =
         (\<lambda>ms :: nat list. if ms = [] then \<lparr>avg_home_goals = 0, avg_away_goals = 0\<rparr>
                       else \<lparr>avg_home_goals = 1.5, avg_away_goals = 1.2\<rparr>),
       filter_matches_by_team_id = (\<lambda>team ms. ms),
       calculate_final_team_stats = (\<lambda>season league team avgs ms. Raised)\<rparr>"
  have s: "get_current_season \<lparr>year = 2025, month = 7, day = 15\<rparr> = 2024"
    by (simp add: get_current_season_def)
  have "predict_match poisson_pmf ?e0 57 66 2021 =
      Inr (Error_dict ''No match data found for the league in season 2024 or 2023 to calculate averages.'')"
    using season_fallback [of ?e0 2021 poisson_pmf 57 66]
    by (simp add: s or_empty_def str_int_seasons)
  moreover have "predict_match poisson_pmf ?e1 57 66 2021 =
      predict_from poisson_pmf ?e1 57 66 2021 \<lparr>avg_home_goals = 1.5, avg_away_goals = 1.2\<rparr> [1] 2023"
    using season_fallback [of ?e1 2021 poisson_pmf 57 66]
    by (simp add: s or_empty_def)
  ultimately show ?thesis by blast
qed

text \<open>
  C10.  When one of the two records is all zero, whatever the other record and the
  averages are, both rates are 0 and the prediction is a certain 0-0 draw.
\<close>

theorem one_zero_record:
  assumes "has_strength home hs" and "has_strength away as"
    and "hs = zero_strength \<or> as = zero_strength"
  shows "expected_goals home away avgs = Inr (0, 0) \<and>
         (\<exists>r. simulate poisson_pmf home away avgs = Inr r \<and>
              home_expected_goals r = 0 \<and> away_expected_goals r = 0 \<and>
              home_team_win_probability r = 0 \<and> away_team_win_probability r = 0 \<and>
              draw_probability r = 100 \<and>
              top_five_scores r =
                [(''0-0'', 100), (''0-1'', 0), (''0-2'', 0), (''0-3'', 0), (''0-4'', 0)])"
proof -
  have eg: "expected_goals home away avgs = Inr (0, 0)"
    using assms(3) by (auto simp: expected_goals_strength [OF assms(1,2)] zero_strength_def)
  show ?thesis
    using eg by (simp add: zero_rates_simulate [OF eg])
qed

theorem one_zero_record_witness:
  "has_strength zero_stats zero_strength \<and>
   has_strength (stats_of \<lparr>attackHome = 1.0, defenseHome = 1.0, attackAway = 0.8, defenseAway = 0.9\<rparr>)
     \<lparr>attackHome = 1.0, defenseHome = 1.0, attackAway = 0.8, defenseAway = 0.9\<rparr> \<and>
   expected_goals zero_stats
     (stats_of \<lparr>attackHome = 1.0, defenseHome = 1.0, attackAway = 0.8, defenseAway = 0.9\<rparr>)
     \<lparr>avg_home_goals = 1.5, avg_away_goals = 1.2\<rparr> = Inr (0, 0) \<and>
   expected_goals
     (stats_of \<lparr>attackHome = 1.0, defenseHome = 1.0, attackAway = 0.8, defenseAway = 0.9\<rparr>)
     zero_stats \<lparr>avg_home_goals = 1.5, avg_away_goals = 1.2\<rparr> = Inr (0, 0) \<and>
   (\<exists>r. simulate poisson_pmf zero_stats
          (stats_of \<lparr>attackHome = 1.0, defenseHome = 1.0, attackAway = 0.8, defenseAway = 0.9\<rparr>)
          \<lparr>avg_home_goals = 1.5, avg_away_goals = 1.2\<rparr> = Inr r \<and>
        draw_probability r = 100 \<and>
        top_five_scores r =
          [(''0-0'', 100), (''0-1'', 0), (''0-2'', 0), (''0-3'', 0), (''0-4'', 0)])"
proof -
  let ?as = "\<lparr>attackHome = 1.0, defenseHome = 1.0, attackAway = 0.8, defenseAway = 0.9 :: real\<rparr>"
  let ?avgs = "\<lparr>avg_home_goals = 1.5, avg_away_goals = 1.2\<rparr>"
  have z: "has_strength zero_stats zero_strength"
    using has_strength_zero by (simp add: zero_strength_def)
  have a: "has_strength (stats_of ?as) ?as" by (rule has_strength_stats_of)
  have l: "zero_strength = zero_strength \<or> ?as = zero_strength" by simp
  have r: "?as = zero_strength \<or> zero_strength = zero_strength" by simp
  show ?thesis
    using z a one_zero_record [OF z a l, of ?avgs] one_zero_record [OF a z r, of ?avgs]
    by blast
qed

end
